theory Spec2Isabelle
  imports Complex_Main
begin

section \<open>JavaScript numbers\<close>

text \<open>
  The program computes with JavaScript numbers. A number is modelled as \<open>NaN\<close>, one of
  the two infinities, or a finite value. Finite values are real numbers and the arithmetic
  on them is exact: rounding, overflow and the sign of zero are not modelled. What is
  modelled is everything the code branches on: \<open>NaN\<close> propagates through arithmetic and
  makes every comparison false, and the infinities follow the IEEE rules. Where a
  statement depends on rounding, it is settled in the binary64 arithmetic that is
  defined after the model of the program.
\<close>

datatype jsnum = NaN | NegInf | Fin real | PosInf

text \<open>A JavaScript value as far as \<open>typeof v === 'number'\<close> can tell.\<close>

datatype jsval = Undefined | Number jsnum

fun typeof_number :: "jsval \<Rightarrow> bool" where
  "typeof_number (Number _) = True"
| "typeof_number Undefined = False"

text \<open>The conversion that an arithmetic operator or a comparison applies to its operand.\<close>

fun ToNumber :: "jsval \<Rightarrow> jsnum" where
  "ToNumber (Number x) = x"
| "ToNumber Undefined = NaN"

fun isNaN :: "jsnum \<Rightarrow> bool" where
  "isNaN NaN = True"
| "isNaN _ = False"

fun js_neg :: "jsnum \<Rightarrow> jsnum" where
  "js_neg NaN = NaN"
| "js_neg NegInf = PosInf"
| "js_neg (Fin x) = Fin (- x)"
| "js_neg PosInf = NegInf"

fun js_add :: "jsnum \<Rightarrow> jsnum \<Rightarrow> jsnum" where
  "js_add NaN _ = NaN"
| "js_add _ NaN = NaN"
| "js_add (Fin a) (Fin b) = Fin (a + b)"
| "js_add PosInf NegInf = NaN"
| "js_add NegInf PosInf = NaN"
| "js_add PosInf _ = PosInf"
| "js_add _ PosInf = PosInf"
| "js_add NegInf _ = NegInf"
| "js_add _ NegInf = NegInf"

definition js_sub :: "jsnum \<Rightarrow> jsnum \<Rightarrow> jsnum" where
  "js_sub a b = js_add a (js_neg b)"

text \<open>The sign of a number, and the infinity (or \<open>NaN\<close>) that a sign stands for.\<close>

fun sign_of :: "jsnum \<Rightarrow> real" where
  "sign_of NaN = 0"
| "sign_of NegInf = - 1"
| "sign_of (Fin x) = sgn x"
| "sign_of PosInf = 1"

definition inf_of_sign :: "real \<Rightarrow> jsnum" where
  "inf_of_sign s = (if s = 0 then NaN else if 0 < s then PosInf else NegInf)"

fun js_mul :: "jsnum \<Rightarrow> jsnum \<Rightarrow> jsnum" where
  "js_mul NaN _ = NaN"
| "js_mul _ NaN = NaN"
| "js_mul (Fin a) (Fin b) = Fin (a * b)"
| "js_mul a b = inf_of_sign (sign_of a * sign_of b)"

text \<open>
  Division. A finite divisor that is zero is taken as \<open>+0\<close>; every division of the
  modelled code has a constant nonzero divisor or is guarded by a test on the divisor.
\<close>

fun js_div :: "jsnum \<Rightarrow> jsnum \<Rightarrow> jsnum" where
  "js_div NaN _ = NaN"
| "js_div _ NaN = NaN"
| "js_div (Fin a) (Fin b) = (if b = 0 then inf_of_sign (sgn a) else Fin (a / b))"
| "js_div (Fin a) _ = Fin 0"
| "js_div a (Fin b) = inf_of_sign (sign_of a * (if b < 0 then - 1 else 1))"
| "js_div _ _ = NaN"

fun js_lt :: "jsnum \<Rightarrow> jsnum \<Rightarrow> bool" where
  "js_lt NaN _ = False"
| "js_lt _ NaN = False"
| "js_lt (Fin a) (Fin b) = (a < b)"
| "js_lt NegInf NegInf = False"
| "js_lt NegInf _ = True"
| "js_lt _ NegInf = False"
| "js_lt PosInf _ = False"
| "js_lt _ PosInf = True"

definition js_gt :: "jsnum \<Rightarrow> jsnum \<Rightarrow> bool" where
  "js_gt a b = js_lt b a"

text \<open>Strict equality \<open>===\<close> on numbers: \<open>NaN\<close> equals nothing.\<close>

definition js_eq :: "jsnum \<Rightarrow> jsnum \<Rightarrow> bool" where
  "js_eq a b = (\<not> isNaN a \<and> a = b)"

definition js_le :: "jsnum \<Rightarrow> jsnum \<Rightarrow> bool" where
  "js_le a b = (js_lt a b \<or> js_eq a b)"

definition js_ge :: "jsnum \<Rightarrow> jsnum \<Rightarrow> bool" where
  "js_ge a b = js_le b a"

subsection \<open>The functions of \<open>Math\<close>\<close>

text \<open>
  The poles of the tangent are irrational, so no finite JavaScript number is one; at a
  pole the model has the value of HOL's total tangent.
\<close>

fun Math_sin :: "jsnum \<Rightarrow> jsnum" where
  "Math_sin (Fin x) = Fin (sin x)"
| "Math_sin _ = NaN"

fun Math_cos :: "jsnum \<Rightarrow> jsnum" where
  "Math_cos (Fin x) = Fin (cos x)"
| "Math_cos _ = NaN"

fun Math_tan :: "jsnum \<Rightarrow> jsnum" where
  "Math_tan (Fin x) = Fin (tan x)"
| "Math_tan _ = NaN"

fun Math_acos :: "jsnum \<Rightarrow> jsnum" where
  "Math_acos (Fin x) = (if - 1 \<le> x \<and> x \<le> 1 then Fin (arccos x) else NaN)"
| "Math_acos _ = NaN"

fun Math_abs :: "jsnum \<Rightarrow> jsnum" where
  "Math_abs NaN = NaN"
| "Math_abs (Fin x) = Fin \<bar>x\<bar>"
| "Math_abs _ = PosInf"

text \<open>\<open>Math.pow\<close> at an exponent that is a natural number.\<close>

fun Math_pow :: "jsnum \<Rightarrow> nat \<Rightarrow> jsnum" where
  "Math_pow x 0 = Fin 1"
| "Math_pow x (Suc n) = js_mul x (Math_pow x n)"

definition Math_max :: "jsnum \<Rightarrow> jsnum \<Rightarrow> jsnum" where
  "Math_max a b = (if isNaN a \<or> isNaN b then NaN else if js_lt a b then b else a)"

definition Math_min :: "jsnum \<Rightarrow> jsnum \<Rightarrow> jsnum" where
  "Math_min a b = (if isNaN a \<or> isNaN b then NaN else if js_lt b a then b else a)"

text \<open>\<open>Math.min(...xs)\<close>: the minimum of no numbers is \<open>+Infinity\<close>.\<close>

fun Math_min_spread :: "jsnum list \<Rightarrow> jsnum" where
  "Math_min_spread [] = PosInf"
| "Math_min_spread (x # xs) = Math_min x (Math_min_spread xs)"

section \<open>solar\_formulas.js\<close>

definition PI :: jsnum where
  "PI = Fin pi"

definition RAD_A_DEG :: jsnum where
  "RAD_A_DEG = js_div (Fin 180) PI"

definition ICS :: jsnum where
  "ICS = Fin 1367"

definition FACTOR_G0D :: jsnum where
  "FACTOR_G0D = js_div (Fin 24) PI"

subsection \<open>calcularComponentesHorizontales\<close>

record componentes =
  Kd :: jsnum
  Dd :: jsnum
  Id :: jsnum

definition calcularComponentesHorizontales :: "jsval \<Rightarrow> jsnum \<Rightarrow> componentes" where
  "calcularComponentesHorizontales Gd_kWh G0d_kWh =
     (if typeof_number Gd_kWh \<and> js_gt (ToNumber Gd_kWh) (Fin 0) \<and> js_gt G0d_kWh (Fin 0)
      then
        let Gd = ToNumber Gd_kWh;
            Kd0 = js_div Gd G0d_kWh;
            Kd1 = (if js_gt Kd0 (Fin 1) then Fin 1.0 else Kd0);
            Dd0 = js_mul Gd
                    (js_sub
                       (js_add (js_sub (Fin 1.39) (js_mul (Fin 4.027) Kd1))
                               (js_mul (Fin 5.531) (Math_pow Kd1 2)))
                       (js_mul (Fin 3.108) (Math_pow Kd1 3)));
            Dd1 = (if js_lt Dd0 (Fin 0) then Fin 0 else Dd0);
            Id0 = js_sub Gd Dd1;
            Id1 = (if js_lt Id0 (Fin 0) then Fin 0 else Id0)
        in \<lparr>Kd = Kd1, Dd = Dd1, Id = Id1\<rparr>
      else \<lparr>Kd = NaN, Dd = NaN, Id = NaN\<rparr>)"

text \<open>The polynomial of the diffuse correlation, on a finite clearness index.\<close>

definition poli_difusa :: "real \<Rightarrow> real" where
  "poli_difusa k = 1.39 - 4.027 * k + 5.531 * k ^ 2 - 3.108 * k ^ 3"

subsection \<open>calcularRb\<close>

definition calcularRb :: "jsnum \<Rightarrow> jsnum \<Rightarrow> jsnum \<Rightarrow> jsnum \<Rightarrow> jsnum" where
  "calcularRb phi_rad delta_rad omega_s_rad beta_rad =
     (let p = phi_rad; b = beta_rad; d = delta_rad; w = omega_s_rad;
          num_term1 = js_mul (js_mul w (Math_sin d)) (Math_sin (js_sub p b));
          num_term2 = js_mul (js_mul (Math_cos d) (Math_cos (js_sub p b))) (Math_sin w);
          numerador = js_add num_term1 num_term2;
          den_term1 = js_mul (js_mul w (Math_sin d)) (Math_sin p);
          den_term2 = js_mul (js_mul (Math_cos d) (Math_cos p)) (Math_sin w);
          denominador = js_add den_term1 den_term2
      in if js_eq denominador (Fin 0) then Fin 0 else js_div numerador denominador)"

text \<open>Numerator and denominator of \<open>calcularRb\<close> on finite angles.\<close>

definition rb_num :: "real \<Rightarrow> real \<Rightarrow> real \<Rightarrow> real \<Rightarrow> real" where
  "rb_num p d w b = w * sin d * sin (p - b) + cos d * cos (p - b) * sin w"

definition rb_den :: "real \<Rightarrow> real \<Rightarrow> real \<Rightarrow> real" where
  "rb_den p d w = w * sin d * sin p + cos d * cos p * sin w"

subsection \<open>calcularRadiacionInclinada\<close>

text \<open>
  The data of one month, as \<open>ejecutarCalculos\<close> builds it: the fields that
  \<open>calcularComponentesHorizontales\<close> returns, copied into the item, and the
  astronomical fields. A field that the code never sets (\<open>undefined\<close>) is \<open>NaN\<close>
  in a numeric field, which is what it is converted to wherever it is read.
\<close>

record item = componentes +
  mesNombre :: string
  isInvalid :: bool
  diasEnMes :: nat
  dn :: int
  delta :: jsnum
  E0 :: jsnum
  omega_s :: jsnum
  G0d_kWh :: jsnum
  Gd_kWh :: jsval

record inclinada =
  Rb :: jsnum
  Id_beta :: jsnum
  Dd_beta :: jsnum
  Gi :: jsnum

text \<open>The ground-reflected term \<open>Rr\<close> (a local of \<open>calcularRadiacionInclinada\<close>).\<close>

definition reflejada :: "jsnum \<Rightarrow> jsnum \<Rightarrow> jsnum" where
  "reflejada inclinacionRadianes Gd =
     (let rho = Fin 0.2;
          Rr_term = js_mul (Fin 0.5) (js_sub (Fin 1) (Math_cos inclinacionRadianes))
      in js_mul (js_mul rho Gd) Rr_term)"

definition calcularRadiacionInclinada ::
    "jsnum \<Rightarrow> 'a item_scheme \<Rightarrow> jsnum \<Rightarrow> inclinada" where
  "calcularRadiacionInclinada inclinacionRadianes it latitudRadianes =
     (let Rb_v = calcularRb latitudRadianes (delta it) (omega_s it) inclinacionRadianes
      in if typeof_number (Gd_kWh it) \<and> js_gt (ToNumber (Gd_kWh it)) (Fin 0)
            \<and> js_gt (G0d_kWh it) (Fin 0)
         then
           let Id_beta0 = js_mul (Id it) Rb_v;
               Id_beta1 = (if js_lt Id_beta0 (Fin 0) then Fin 0 else Id_beta0);
               Ai = js_div (Id it) (G0d_kWh it);
               anisotropyIndex = Math_max (Fin 0) (Math_min (Fin 1) Ai);
               Rd_term = js_mul (Fin 0.5) (js_add (Fin 1) (Math_cos inclinacionRadianes));
               Dd_beta1 = js_add (js_mul (js_mul (Dd it) anisotropyIndex) Rb_v)
                                 (js_mul (js_mul (Dd it) (js_sub (Fin 1) anisotropyIndex)) Rd_term);
               Rr = reflejada inclinacionRadianes (ToNumber (Gd_kWh it));
               Gi1 = js_add (js_add Id_beta1 Dd_beta1) Rr
           in \<lparr>Rb = Rb_v, Id_beta = Id_beta1, Dd_beta = Dd_beta1, Gi = Gi1\<rparr>
         else \<lparr>Rb = Rb_v, Id_beta = NaN, Dd_beta = NaN, Gi = NaN\<rparr>)"

subsection \<open>calcularDelta and calcularG0d\<close>

definition calcularDelta :: "jsnum \<Rightarrow> jsnum" where
  "calcularDelta dn_v =
     (let gamma = js_mul (js_mul (Fin 2) PI) (js_div (js_sub dn_v (Fin 1)) (Fin 365))
      in js_add
           (js_sub
              (js_add
                 (js_sub
                    (js_add
                       (js_sub (Fin 0.006918) (js_mul (Fin 0.399912) (Math_cos gamma)))
                       (js_mul (Fin 0.070257) (Math_sin gamma)))
                    (js_mul (Fin 0.006758) (Math_cos (js_mul (Fin 2) gamma))))
                 (js_mul (Fin 0.000907) (Math_sin (js_mul (Fin 2) gamma))))
              (js_mul (Fin 0.002697) (Math_cos (js_mul (Fin 3) gamma))))
           (js_mul (Fin 0.00148) (Math_sin (js_mul (Fin 3) gamma))))"

record g0d =
  omega_s_r :: jsnum
  E0_r :: jsnum
  G0d_kWh_r :: jsnum

text \<open>
  The fields of the object that \<open>calcularG0d\<close> returns are \<open>omega_s\<close>, \<open>E0\<close> and
  \<open>G0d_kWh\<close>; they carry the suffix \<open>_r\<close> here because the month's item has fields
  of the same names.
\<close>

definition calcularG0d :: "jsnum \<Rightarrow> jsnum \<Rightarrow> jsnum \<Rightarrow> g0d" where
  "calcularG0d latitudRadianes delta_rad dn_v =
     (let argE0 = js_div (js_mul (js_mul (Fin 2) PI) dn_v) (Fin 365);
          E0_v = js_add (Fin 1) (js_mul (Fin 0.033) (Math_cos argE0));
          operandoArccos = js_mul (js_neg (Math_tan latitudRadianes)) (Math_tan delta_rad)
      in if js_ge operandoArccos (Fin (- 1)) \<and> js_le operandoArccos (Fin 1) then
           let omega_s_rad = Math_acos operandoArccos;
               termino1 = js_mul (js_mul omega_s_rad (Math_sin delta_rad)) (Math_sin latitudRadianes);
               termino2 = js_mul (js_mul (Math_cos delta_rad) (Math_cos latitudRadianes))
                                 (Math_sin omega_s_rad);
               G0d_valor_Wh = js_mul (js_mul (js_mul FACTOR_G0D ICS) E0_v) (js_add termino1 termino2)
           in \<lparr>omega_s_r = omega_s_rad, E0_r = E0_v, G0d_kWh_r = js_div G0d_valor_Wh (Fin 1000)\<rparr>
         else if js_lt operandoArccos (Fin (- 1)) then
           let omega_s_rad = PI;
               termino1_polar = js_mul (js_mul omega_s_rad (Math_sin delta_rad)) (Math_sin latitudRadianes);
               G0d_valor_Wh = js_mul (js_mul (js_mul FACTOR_G0D ICS) E0_v) termino1_polar
           in \<lparr>omega_s_r = omega_s_rad, E0_r = E0_v, G0d_kWh_r = js_div G0d_valor_Wh (Fin 1000)\<rparr>
         else
           \<lparr>omega_s_r = Fin 0, E0_r = E0_v, G0d_kWh_r = js_div (Fin 0) (Fin 1000)\<rparr>)"

section \<open>main.js\<close>

record mes_data =
  nombre :: string
  dias :: nat
  inicio_dn :: int

definition mesesData :: "mes_data list" where
  "mesesData =
     [\<lparr>nombre = ''Enero'', dias = 31, inicio_dn = 1\<rparr>,
      \<lparr>nombre = ''Febrero'', dias = 28, inicio_dn = 32\<rparr>,
      \<lparr>nombre = ''Marzo'', dias = 31, inicio_dn = 60\<rparr>,
      \<lparr>nombre = ''Abril'', dias = 30, inicio_dn = 91\<rparr>,
      \<lparr>nombre = ''Mayo'', dias = 31, inicio_dn = 121\<rparr>,
      \<lparr>nombre = ''Junio'', dias = 30, inicio_dn = 152\<rparr>,
      \<lparr>nombre = ''Julio'', dias = 31, inicio_dn = 182\<rparr>,
      \<lparr>nombre = ''Agosto'', dias = 31, inicio_dn = 213\<rparr>,
      \<lparr>nombre = ''Septiembre'', dias = 30, inicio_dn = 244\<rparr>,
      \<lparr>nombre = ''Octubre'', dias = 31, inicio_dn = 274\<rparr>,
      \<lparr>nombre = ''Noviembre'', dias = 30, inicio_dn = 305\<rparr>,
      \<lparr>nombre = ''Diciembre'', dias = 31, inicio_dn = 335\<rparr>]"

text \<open>
  An element of \<open>resultadosMensualesGlobales\<close>: the month's item with the property
  \<open>Gi\<close> that \<open>ejecutarCalculos\<close> adds to it (named \<open>Gi_mes\<close> here; \<open>Gi\<close> is the
  field of the calculator's result).
\<close>

record resultado_mensual = item +
  Gi_mes :: jsnum

subsection \<open>generarTablaAnualOptima\<close>

record fila_anual =
  beta :: nat
  GiAnual :: jsnum
  GiMin :: jsnum

text \<open>
  The body of the \<open>forEach\<close> over the months at one candidate angle; the state is the
  pair of the locals \<open>GiAnualTotal\<close> and \<open>GiMensuales\<close>. The test
  \<open>typeof calcInclinada.Gi === 'number'\<close> holds of every number.
\<close>

definition acumular_mes ::
    "jsnum \<Rightarrow> jsnum \<Rightarrow> jsnum \<times> jsnum list \<Rightarrow> 'a item_scheme \<Rightarrow> jsnum \<times> jsnum list" where
  "acumular_mes latitudRadianes betaRadianes acc it =
     (let calcInclinada = calcularRadiacionInclinada betaRadianes it latitudRadianes
      in if \<not> isNaN (Gi calcInclinada)
         then (js_add (fst acc) (js_mul (Gi calcInclinada) (Fin (real (diasEnMes it)))),
               snd acc @ [Gi calcInclinada])
         else acc)"

text \<open>
  The state of the search loop: the locals \<open>resultadosAnuales\<close>, \<open>maxGiAnual\<close> and
  \<open>anguloOptimo\<close> (\<open>null\<close> is \<open>None\<close>).
\<close>

type_synonym busqueda = "fila_anual list \<times> jsnum \<times> nat option"

definition paso_beta ::
    "jsnum \<Rightarrow> 'a item_scheme list \<Rightarrow> nat \<Rightarrow> busqueda \<Rightarrow> busqueda" where
  "paso_beta latitudRadianes resultadosMensualesGlobales betaGrados st =
     (let betaRadianes = js_div (Fin (real betaGrados)) RAD_A_DEG;
          acc = foldl (acumular_mes latitudRadianes betaRadianes) (Fin 0, [])
                  resultadosMensualesGlobales;
          GiAnualMWh = js_div (fst acc) (Fin 1000);
          resultadosAnuales = fst st @
             [\<lparr>beta = betaGrados, GiAnual = GiAnualMWh, GiMin = Math_min_spread (snd acc)\<rparr>]
      in if js_gt GiAnualMWh (fst (snd st))
         then (resultadosAnuales, GiAnualMWh, Some betaGrados)
         else (resultadosAnuales, fst (snd st), snd (snd st)))"

function bucle_beta ::
    "jsnum \<Rightarrow> 'a item_scheme list \<Rightarrow> nat \<Rightarrow> busqueda \<Rightarrow> busqueda" where
  "bucle_beta latitudRadianes rs betaGrados st =
     (if betaGrados \<le> 90
      then bucle_beta latitudRadianes rs (betaGrados + 5) (paso_beta latitudRadianes rs betaGrados st)
      else st)"
  by pat_completeness auto
termination
  by (relation "measure (\<lambda>(l, rs, b, st). 91 - b)") auto

record retorno =
  anguloOptimo :: "nat option"
  GiMinMensual :: jsnum

text \<open>
  What \<open>generarTablaAnualOptima\<close> returns, with the rows of the table that it writes
  into the page (no row when it writes the message instead).
\<close>

record retorno_tabla = retorno +
  tabla_optima :: "fila_anual list"

definition generarTablaAnualOptima ::
    "jsnum \<Rightarrow> 'a item_scheme list \<Rightarrow> retorno_tabla" where
  "generarTablaAnualOptima latitudRadianes resultadosMensualesGlobales =
     (if length resultadosMensualesGlobales = 0
      then \<lparr>anguloOptimo = None, GiMinMensual = Fin 0, tabla_optima = []\<rparr>
      else
        let st = bucle_beta latitudRadianes resultadosMensualesGlobales 0 ([], Fin (- 1), None);
            resultadosAnuales = fst st;
            anguloOptimo_v = snd (snd st);
            resultadoOptimo = find (\<lambda>res. Some (beta res) = anguloOptimo_v) resultadosAnuales;
            GiMinMensual_v = (case resultadoOptimo of None \<Rightarrow> PosInf | Some res \<Rightarrow> GiMin res)
        in \<lparr>anguloOptimo = anguloOptimo_v, GiMinMensual = GiMinMensual_v,
            tabla_optima = resultadosAnuales\<rparr>)"

subsection \<open>ejecutarCalculos\<close>

text \<open>
  Step 3 and step 4 for one month. \<open>GdApi d\<close> is the number that \<open>parseFloat\<close> makes
  of the string \<open>obtenerGdOpenMeteo\<close> answers for the day of the year \<open>d\<close>: \<open>NaN\<close>
  for an error message.
\<close>

definition preparar_mes :: "jsnum \<Rightarrow> int \<Rightarrow> (int \<Rightarrow> jsnum) \<Rightarrow> mes_data \<Rightarrow> item" where
  "preparar_mes latitudRadianes diaDelMes GdApi mesData =
     (if diaDelMes < 1 \<or> diaDelMes > int (dias mesData)
      then \<lparr>Kd = NaN, Dd = NaN, Id = NaN, mesNombre = nombre mesData, isInvalid = True,
            diasEnMes = dias mesData, dn = inicio_dn mesData + 14, delta = NaN, E0 = NaN,
            omega_s = NaN, G0d_kWh = NaN, Gd_kWh = Undefined\<rparr>
      else
        let dn_v = inicio_dn mesData + (diaDelMes - 1);
            delta_rad = calcularDelta (Fin (real_of_int dn_v));
            r = calcularG0d latitudRadianes delta_rad (Fin (real_of_int dn_v));
            Gd = Number (GdApi dn_v);
            c = calcularComponentesHorizontales Gd (G0d_kWh_r r)
        in \<lparr>Kd = Kd c, Dd = Dd c, Id = Id c, mesNombre = nombre mesData, isInvalid = False,
            diasEnMes = dias mesData, dn = dn_v, delta = delta_rad, E0 = E0_r r,
            omega_s = omega_s_r r, G0d_kWh = G0d_kWh_r r, Gd_kWh = Gd\<rparr>)"

text \<open>The test of the \<open>filter\<close> that selects the months of the search.\<close>

definition mes_valido :: "item \<Rightarrow> bool" where
  "mes_valido it =
     (\<not> isInvalid it \<and> typeof_number (Gd_kWh it) \<and> \<not> isNaN (ToNumber (Gd_kWh it))
      \<and> js_gt (ToNumber (Gd_kWh it)) (Fin 0))"

definition con_Gi :: "jsnum \<Rightarrow> jsnum \<Rightarrow> 'a item_scheme \<Rightarrow> resultado_mensual" where
  "con_Gi inclinacionRadianes latitudRadianes it =
     \<lparr>Kd = Kd it, Dd = Dd it, Id = Id it, mesNombre = mesNombre it, isInvalid = isInvalid it,
      diasEnMes = diasEnMes it, dn = dn it, delta = delta it, E0 = E0 it,
      omega_s = omega_s it, G0d_kWh = G0d_kWh it, Gd_kWh = Gd_kWh it,
      Gi_mes = Gi (calcularRadiacionInclinada inclinacionRadianes it latitudRadianes)\<rparr>"

text \<open>
  The result of a run: what \<open>generarTablaAnualOptima\<close> returned and the final value of
  \<open>resultadosMensualesGlobales\<close>. A run that stops at the validation of its inputs has
  no result. The day of the month is what \<open>parseInt\<close> returned, an integer: the run
  rejects the other value, \<open>NaN\<close>, before it computes anything. The pages that the run
  writes (the monthly table, the chart, the sizing summary) are not part of the model.
\<close>

record corrida =
  optimo :: retorno_tabla
  resultadosMensuales :: "resultado_mensual list"

definition ejecutarCalculos ::
    "jsnum \<Rightarrow> jsnum \<Rightarrow> jsnum \<Rightarrow> int \<Rightarrow> (int \<Rightarrow> jsnum) \<Rightarrow> corrida option" where
  "ejecutarCalculos ET_Global_Wh latitudGrados longitudGrados diaDelMes GdApi =
     (if js_le ET_Global_Wh (Fin 0) then None
      else if isNaN latitudGrados \<or> isNaN longitudGrados then None
      else
        let inclinacionGradosDefault = Math_abs latitudGrados;
            latitudRadianes = js_div latitudGrados RAD_A_DEG;
            inclinacionRadianesDefault = js_div inclinacionGradosDefault RAD_A_DEG;
            resultsRaw = map (preparar_mes latitudRadianes diaDelMes GdApi) mesesData;
            globales = map (con_Gi inclinacionRadianesDefault latitudRadianes)
                         (filter mes_valido resultsRaw);
            r = generarTablaAnualOptima latitudRadianes globales;
            finales = (case anguloOptimo r of
                         None \<Rightarrow> globales
                       | Some a \<Rightarrow>
                           map (con_Gi (js_div (Fin (real a)) RAD_A_DEG) latitudRadianes) globales)
        in Some \<lparr>optimo = r, resultadosMensuales = finales\<rparr>)"

section \<open>Example inputs\<close>

text \<open>A month whose irradiation request failed: \<open>parseFloat\<close> of the message is \<open>NaN\<close>.\<close>

definition mes_sin_dato :: item where
  "mes_sin_dato =
     \<lparr>Kd = NaN, Dd = NaN, Id = NaN, mesNombre = ''Enero'', isInvalid = False,
      diasEnMes = 31, dn = 15, delta = Fin 0, E0 = Fin 1, omega_s = Fin (pi / 2),
      G0d_kWh = Fin 10, Gd_kWh = Number NaN\<rparr>"

text \<open>A month with data, at the equator on a day of declination 0.\<close>

definition mes_ejemplo :: item where
  "mes_ejemplo =
     \<lparr>Kd = Fin 0.5, Dd = Fin 1.85375, Id = Fin 3.14625, mesNombre = ''Marzo'',
      isInvalid = False, diasEnMes = 31, dn = 74, delta = Fin 0, E0 = Fin 1,
      omega_s = Fin (pi / 2), G0d_kWh = Fin 10, Gd_kWh = Number (Fin 5)\<rparr>"

text \<open>A polar-night month: the source answered a value, the extraterrestrial irradiation is 0.\<close>

definition mes_noche_polar :: item where
  "mes_noche_polar =
     \<lparr>Kd = NaN, Dd = NaN, Id = NaN, mesNombre = ''Diciembre'', isInvalid = False,
      diasEnMes = 31, dn = 349, delta = Fin (- 0.4), E0 = Fin 1.03, omega_s = Fin 0,
      G0d_kWh = Fin 0, Gd_kWh = Number (Fin 0.2)\<rparr>"

text \<open>
  A data source that answers 5 kWh for the days of the first eight months and an error
  message for the later ones.
\<close>

definition api_8_meses :: "int \<Rightarrow> jsnum" where
  "api_8_meses d = (if d \<le> 227 then Fin 5 else NaN)"

section \<open>Notions used in the statements\<close>

text \<open>The candidate angles as the specification lists them.\<close>

definition candidatos :: "nat list" where
  "candidatos = [0, 5, 10, 15, 20, 25, 30, 35, 40, 45, 50, 55, 60, 65, 70, 75, 80, 85, 90]"

text \<open>The values that the counter of the search loop takes from \<open>b\<close> on.\<close>

function angulos :: "nat \<Rightarrow> nat list" where
  "angulos b = (if b \<le> 90 then b # angulos (b + 5) else [])"
  by pat_completeness auto
termination
  by (relation "measure (\<lambda>b. 91 - b)") auto

text \<open>
  The locals \<open>GiAnualTotal\<close> and \<open>GiMensuales\<close> after the \<open>forEach\<close> at the candidate
  \<open>b\<close>, and the row that the loop pushes for it.
\<close>

definition acc_beta :: "jsnum \<Rightarrow> 'a item_scheme list \<Rightarrow> nat \<Rightarrow> jsnum \<times> jsnum list" where
  "acc_beta lat rs b =
     foldl (acumular_mes lat (js_div (Fin (real b)) RAD_A_DEG)) (Fin 0, []) rs"

definition fila_beta :: "jsnum \<Rightarrow> 'a item_scheme list \<Rightarrow> nat \<Rightarrow> fila_anual" where
  "fila_beta lat rs b =
     \<lparr>beta = b, GiAnual = js_div (fst (acc_beta lat rs b)) (Fin 1000),
      GiMin = Math_min_spread (snd (acc_beta lat rs b))\<rparr>"

fun es_finito :: "jsnum \<Rightarrow> bool" where
  "es_finito (Fin _) = True"
| "es_finito _ = False"

text \<open>
  A month whose diffuse and direct components are the ones that
  \<open>calcularComponentesHorizontales\<close> returns for its irradiations: step 4 of
  \<open>ejecutarCalculos\<close> builds every month so.
\<close>

definition de_componentes :: "'a item_scheme \<Rightarrow> bool" where
  "de_componentes it =
     (Dd it = Dd (calcularComponentesHorizontales (Gd_kWh it) (G0d_kWh it))
      \<and> Id it = Id (calcularComponentesHorizontales (Gd_kWh it) (G0d_kWh it)))"

text \<open>
  A valid month sample: it passes the filter of \<open>ejecutarCalculos\<close> with a finite
  irradiation, its astronomical data are finite, and its components are those of
  \<open>calcularComponentesHorizontales\<close>.
\<close>

definition muestra_valida :: "'a item_scheme \<Rightarrow> bool" where
  "muestra_valida it =
     (typeof_number (Gd_kWh it) \<and> es_finito (ToNumber (Gd_kWh it))
      \<and> js_gt (ToNumber (Gd_kWh it)) (Fin 0)
      \<and> es_finito (G0d_kWh it) \<and> es_finito (delta it) \<and> es_finito (omega_s it)
      \<and> de_componentes it)"

text \<open>
  The annual yield of a candidate angle in the words of the specification: the sum over
  the months of the month's \<open>Gi\<close> times its number of days, a month whose \<open>Gi\<close> is
  not a finite number contributing nothing, divided by 1000.
\<close>

definition contribucion :: "jsnum \<Rightarrow> nat \<Rightarrow> 'a item_scheme \<Rightarrow> real" where
  "contribucion lat b it =
     (case Gi (calcularRadiacionInclinada (js_div (Fin (real b)) RAD_A_DEG) it lat) of
        Fin x \<Rightarrow> x * real (diasEnMes it)
      | _ \<Rightarrow> 0)"

definition rendimiento_anual :: "jsnum \<Rightarrow> 'a item_scheme list \<Rightarrow> nat \<Rightarrow> real" where
  "rendimiento_anual lat rs b = sum_list (map (contribucion lat b) rs) / 1000"

text \<open>The list \<open>resultsRaw\<close> of a run of \<open>ejecutarCalculos\<close>.\<close>

definition resultsRaw_de :: "jsnum \<Rightarrow> int \<Rightarrow> (int \<Rightarrow> jsnum) \<Rightarrow> item list" where
  "resultsRaw_de latitudGrados diaDelMes GdApi =
     map (preparar_mes (js_div latitudGrados RAD_A_DEG) diaDelMes GdApi) mesesData"

text \<open>
  The declination of \<open>calcularDelta\<close> as a function of the day angle \<open>gamma\<close>.
\<close>

definition delta_gamma :: "real \<Rightarrow> real" where
  "delta_gamma g =
     0.006918 - 0.399912 * cos g + 0.070257 * sin g - 0.006758 * cos (2 * g)
     + 0.000907 * sin (2 * g) - 0.002697 * cos (3 * g) + 0.00148 * sin (3 * g)"

text \<open>
  The anisotropy index of a month (the local \<open>anisotropyIndex\<close> of
  \<open>calcularRadiacionInclinada\<close>).
\<close>

definition indice_anisotropia :: "'a item_scheme \<Rightarrow> jsnum" where
  "indice_anisotropia it = Math_max (Fin 0) (Math_min (Fin 1) (js_div (Id it) (G0d_kWh it)))"

section \<open>The radiation module: calcularRadiacionOptima\<close>

text \<open>
  The repository has a second optimizer, \<open>calcularRadiacionOptima\<close>, which the newer
  main script calls. Its search loop is the loop of \<open>generarTablaAnualOptima\<close>,
  statement for statement, so the model uses \<open>bucle_beta\<close> for it. It differs in how
  it builds the months and in its guard. \<open>GdFuente d\<close> is the number that the promise
  of \<open>obtenerGdOpenMeteo\<close> resolves to for the day \<open>d\<close>, or \<open>None\<close> when it rejects;
  the \<open>catch\<close> then sets \<open>Gd_kWh\<close> to 0 and leaves the components undefined.
\<close>

record optimizacion = retorno +
  GiAnualMWh :: jsnum
  resultadosMensualesFinal :: "(item \<times> inclinada) list"

definition preparar_mes_optima ::
    "jsnum \<Rightarrow> int \<Rightarrow> (int \<Rightarrow> jsnum option) \<Rightarrow> mes_data \<Rightarrow> item option" where
  "preparar_mes_optima latitudRadianes diaDelMes GdFuente mesData =
     (if diaDelMes < 1 \<or> diaDelMes > int (dias mesData) then None
      else
        let dn_v = inicio_dn mesData + (diaDelMes - 1);
            delta_rad = calcularDelta (Fin (real_of_int dn_v));
            r = calcularG0d latitudRadianes delta_rad (Fin (real_of_int dn_v))
        in Some
             (case GdFuente dn_v of
                Some gd \<Rightarrow>
                  let c = calcularComponentesHorizontales (Number gd) (G0d_kWh_r r)
                  in \<lparr>Kd = Kd c, Dd = Dd c, Id = Id c, mesNombre = nombre mesData,
                      isInvalid = False, diasEnMes = dias mesData, dn = dn_v,
                      delta = delta_rad, E0 = E0_r r, omega_s = omega_s_r r,
                      G0d_kWh = G0d_kWh_r r, Gd_kWh = Number gd\<rparr>
              | None \<Rightarrow>
                  \<lparr>Kd = NaN, Dd = NaN, Id = NaN, mesNombre = nombre mesData,
                   isInvalid = False, diasEnMes = dias mesData, dn = dn_v,
                   delta = delta_rad, E0 = E0_r r, omega_s = omega_s_r r,
                   G0d_kWh = G0d_kWh_r r, Gd_kWh = Number (Fin 0)\<rparr>))"

text \<open>The list \<open>datosBaseValidos\<close> of a call.\<close>

definition datosBaseValidos_de :: "jsnum \<Rightarrow> int \<Rightarrow> (int \<Rightarrow> jsnum option) \<Rightarrow> item list" where
  "datosBaseValidos_de latitudGrados diaDelMes GdFuente =
     filter (\<lambda>it. typeof_number (Gd_kWh it) \<and> js_gt (ToNumber (Gd_kWh it)) (Fin 0))
       (List.map_filter (preparar_mes_optima (js_div latitudGrados RAD_A_DEG) diaDelMes GdFuente)
          mesesData)"

definition calcularRadiacionOptima ::
    "jsnum \<Rightarrow> jsnum \<Rightarrow> int \<Rightarrow> (int \<Rightarrow> jsnum option) \<Rightarrow> optimizacion" where
  "calcularRadiacionOptima latitudGrados longitudGrados diaDelMes GdFuente =
     (let latitudRadianes = js_div latitudGrados RAD_A_DEG;
          datosBaseValidos = datosBaseValidos_de latitudGrados diaDelMes GdFuente
      in if length datosBaseValidos < 10
         then \<lparr>anguloOptimo = None, GiMinMensual = Fin 0, GiAnualMWh = Fin 0,
               resultadosMensualesFinal = []\<rparr>
         else
           let st = bucle_beta latitudRadianes datosBaseValidos 0 ([], Fin (- 1), None);
               resultadoOptimo = find (\<lambda>res. Some (beta res) = snd (snd st)) (fst st)
           in \<lparr>anguloOptimo = snd (snd st),
               GiMinMensual = (case resultadoOptimo of None \<Rightarrow> Fin 0 | Some res \<Rightarrow> GiMin res),
               GiAnualMWh = fst (snd st),
               resultadosMensualesFinal =
                 (case snd (snd st) of
                    None \<Rightarrow> []
                  | Some a \<Rightarrow>
                      map (\<lambda>it. (it, calcularRadiacionInclinada (js_div (Fin (real a)) RAD_A_DEG)
                                         it latitudRadianes))
                        datosBaseValidos)\<rparr>)"

text \<open>A source that answers for the days of the first eight months and fails afterwards.\<close>

definition fuente_8_meses :: "int \<Rightarrow> jsnum option" where
  "fuente_8_meses d = (if d \<le> 227 then Some (Fin 5) else None)"

section \<open>Binary64 arithmetic\<close>

text \<open>
  The definitions above compute with exact reals, which cannot tell whether two numbers
  that the program computes along different paths are the same double. For that question
  the arithmetic of the program is given here as it is on the finite numbers of IEEE 754
  binary64. A number is a pair \<open>(m, e)\<close> of integers that stands for \<open>m * 2 ^ e\<close>, and
  every operation returns the exact result rounded to 53 significant bits, ties to the
  even significand. The exponent is not bounded: overflow, subnormal numbers, the sign of
  zero, the infinities and \<open>NaN\<close> are left out, and the values used below are far from
  all of them.
\<close>

type_synonym binary64 = "int \<times> int"

text \<open>The number of bits of a natural number.\<close>

function longitud_bits :: "int \<Rightarrow> nat" where
  "longitud_bits n = (if n \<le> 0 then 0 else Suc (longitud_bits (n div 2)))"
  by pat_completeness auto
termination
  by (relation "measure nat") auto

declare longitud_bits.simps [simp del]

text \<open>Rounding of \<open>m * 2 ^ e\<close> to 53 significant bits, to nearest, ties to even.\<close>

definition redondear :: "int \<Rightarrow> int \<Rightarrow> binary64" where
  "redondear m e =
     (let n = longitud_bits \<bar>m\<bar>
      in if n \<le> 53 then (m, e)
         else
           let s = n - 53;
               q = m div 2 ^ s;
               r = m mod 2 ^ s;
               mitad = 2 ^ (s - 1)
           in ((if r < mitad then q else if mitad < r then q + 1
                else if even q then q else q + 1),
               e + int s))"

definition fadd :: "binary64 \<Rightarrow> binary64 \<Rightarrow> binary64" where
  "fadd a b =
     (let e = min (snd a) (snd b)
      in redondear (fst a * 2 ^ nat (snd a - e) + fst b * 2 ^ nat (snd b - e)) e)"

definition fsub :: "binary64 \<Rightarrow> binary64 \<Rightarrow> binary64" where
  "fsub a b = fadd a (- fst b, snd b)"

definition fmul :: "binary64 \<Rightarrow> binary64 \<Rightarrow> binary64" where
  "fmul a b = redondear (fst a * fst b) (snd a + snd b)"

text \<open>
  The quotient, for a divisor that is not 0: the integer quotient is taken with at least
  64 bits, and a remainder that is not 0 is kept as one more bit, below the place where a
  tie is decided, so that the rounding is the rounding of the exact quotient.
\<close>

definition fdiv :: "binary64 \<Rightarrow> binary64 \<Rightarrow> binary64" where
  "fdiv a b =
     (let m1 = \<bar>fst a\<bar>;
          m2 = \<bar>fst b\<bar>;
          k = nat (max 0 (64 + int (longitud_bits m2) - int (longitud_bits m1)));
          q = (m1 * 2 ^ k) div m2;
          r = (m1 * 2 ^ k) mod m2;
          sg = (if (fst a < 0) \<noteq> (fst b < 0) then - 1 else 1)
      in redondear (sg * (2 * q + (if r = 0 then 0 else 1))) (snd a - snd b - int k - 1))"

text \<open>\<open>Math.pow\<close> at an exponent that is a natural number, correctly rounded.\<close>

definition fpow :: "binary64 \<Rightarrow> nat \<Rightarrow> binary64" where
  "fpow a n = redondear (fst a ^ n) (snd a * int n)"

definition fmenor :: "binary64 \<Rightarrow> binary64 \<Rightarrow> bool" where
  "fmenor a b =
     (let e = min (snd a) (snd b)
      in fst a * 2 ^ nat (snd a - e) < fst b * 2 ^ nat (snd b - e))"

definition figual :: "binary64 \<Rightarrow> binary64 \<Rightarrow> bool" where
  "figual a b =
     (let e = min (snd a) (snd b)
      in fst a * 2 ^ nat (snd a - e) = fst b * 2 ^ nat (snd b - e))"

definition fmax :: "binary64 \<Rightarrow> binary64 \<Rightarrow> binary64" where
  "fmax a b = (if fmenor a b then b else a)"

definition fmin :: "binary64 \<Rightarrow> binary64 \<Rightarrow> binary64" where
  "fmin a b = (if fmenor b a then b else a)"

text \<open>The double that a decimal literal \<open>p / q\<close> of the source denotes.\<close>

definition decimal :: "int \<Rightarrow> int \<Rightarrow> binary64" where
  "decimal p q = fdiv (p, 0) (q, 0)"

text \<open>The real number that a pair stands for.\<close>

definition valor :: "binary64 \<Rightarrow> real" where
  "valor a = (if 0 \<le> snd a then of_int (fst a) * 2 ^ nat (snd a)
              else of_int (fst a) / 2 ^ nat (- snd a))"

text \<open>
  \<open>calcularComponentesHorizontales\<close> on two numbers, statement for statement.
  \<open>None\<close> is the result whose three fields are \<open>NaN\<close>.
\<close>

definition calcularComponentesHorizontales_b64 ::
    "binary64 \<Rightarrow> binary64 \<Rightarrow> (binary64 \<times> binary64 \<times> binary64) option" where
  "calcularComponentesHorizontales_b64 Gd_v G0d_v =
     (if fmenor (0, 0) Gd_v \<and> fmenor (0, 0) G0d_v
      then
        let Kd0 = fdiv Gd_v G0d_v;
            Kd1 = (if fmenor (1, 0) Kd0 then (1, 0) else Kd0);
            Dd0 = fmul Gd_v
                    (fsub
                       (fadd (fsub (decimal 139 100) (fmul (decimal 4027 1000) Kd1))
                             (fmul (decimal 5531 1000) (fpow Kd1 2)))
                       (fmul (decimal 3108 1000) (fpow Kd1 3)));
            Dd1 = (if fmenor Dd0 (0, 0) then (0, 0) else Dd0);
            Id0 = fsub Gd_v Dd1;
            Id1 = (if fmenor Id0 (0, 0) then (0, 0) else Id0)
        in Some (Kd1, Dd1, Id1)
      else None)"

text \<open>
  \<open>calcularRb\<close>. The values that \<open>Math.sin\<close> and \<open>Math.cos\<close> return are parameters,
  since the language does not fix them: \<open>sin_d\<close> and \<open>cos_d\<close> at the declination,
  \<open>sin_w\<close> at the sunset hour angle \<open>w\<close>, \<open>sin_pb\<close> and \<open>cos_pb\<close> at the
  latitude minus the tilt, \<open>sin_p\<close> and \<open>cos_p\<close> at the latitude. At a tilt of 0 the
  difference \<open>p - b\<close> is \<open>p\<close> itself, so that \<open>sin_pb\<close> is \<open>sin_p\<close> and
  \<open>cos_pb\<close> is \<open>cos_p\<close>.
\<close>

definition calcularRb_b64 ::
    "binary64 \<Rightarrow> binary64 \<Rightarrow> binary64 \<Rightarrow> binary64 \<Rightarrow> binary64 \<Rightarrow> binary64
       \<Rightarrow> binary64 \<Rightarrow> binary64 \<Rightarrow> binary64" where
  "calcularRb_b64 w sin_d cos_d sin_w sin_pb cos_pb sin_p cos_p =
     (let num_term1 = fmul (fmul w sin_d) sin_pb;
          num_term2 = fmul (fmul cos_d cos_pb) sin_w;
          numerador = fadd num_term1 num_term2;
          den_term1 = fmul (fmul w sin_d) sin_p;
          den_term2 = fmul (fmul cos_d cos_p) sin_w;
          denominador = fadd den_term1 den_term2
      in if figual denominador (0, 0) then (0, 0) else fdiv numerador denominador)"

text \<open>
  \<open>calcularRadiacionInclinada\<close> after its first statement: \<open>Rb_v\<close> is the value of
  \<open>calcularRb\<close> and \<open>cos_inclinacion\<close> the value of \<open>Math.cos(inclinacionRadianes)\<close>.
  The result is \<open>Id_beta\<close>, \<open>Dd_beta\<close> and \<open>Gi\<close>, or \<open>None\<close> when they are \<open>NaN\<close>.
\<close>

definition calcularRadiacionInclinada_b64 ::
    "binary64 \<Rightarrow> binary64 \<Rightarrow> binary64 \<Rightarrow> binary64 \<Rightarrow> binary64 \<Rightarrow> binary64
       \<Rightarrow> (binary64 \<times> binary64 \<times> binary64) option" where
  "calcularRadiacionInclinada_b64 Rb_v cos_inclinacion Id_v Dd_v G0d_v Gd_v =
     (if fmenor (0, 0) Gd_v \<and> fmenor (0, 0) G0d_v
      then
        let Id_beta0 = fmul Id_v Rb_v;
            Id_beta1 = (if fmenor Id_beta0 (0, 0) then (0, 0) else Id_beta0);
            Ai = fdiv Id_v G0d_v;
            anisotropyIndex = fmax (0, 0) (fmin (1, 0) Ai);
            Rd_term = fmul (decimal 5 10) (fadd (1, 0) cos_inclinacion);
            Dd_beta1 = fadd (fmul (fmul Dd_v anisotropyIndex) Rb_v)
                            (fmul (fmul Dd_v (fsub (1, 0) anisotropyIndex)) Rd_term);
            rho = decimal 2 10;
            Rr_term = fmul (decimal 5 10) (fsub (1, 0) cos_inclinacion);
            Rr = fmul (fmul rho Gd_v) Rr_term;
            Gi1 = fadd (fadd Id_beta1 Dd_beta1) Rr
        in Some (Id_beta1, Dd_beta1, Gi1)
      else None)"

text \<open>
  The month of the examples below: a global horizontal irradiation of 0.5 and an
  extraterrestrial irradiation of 2.5, at the equator (latitude 0) with a declination of 0
  and a sunset hour angle of \<open>Math.PI / 2\<close>. The sine and the cosine of 0 are 0 and 1,
  and the sine of \<open>Math.PI / 2\<close> is 1. The tilt is 0, so that the numerator of
  \<open>calcularRb\<close> is computed from the same numbers as its denominator.
\<close>

definition Rb_ecuador :: binary64 where
  "Rb_ecuador =
     calcularRb_b64 (7074237752028440, - 52) (0, 0) (1, 0) (1, 0) (0, 0) (1, 0) (0, 0) (1, 0)"

section \<open>Properties of the horizontal components\<close>

lemma Math_pow_Fin: "Math_pow (Fin k) n = Fin (k ^ n)"
  by (induction n) simp_all

lemma componentes_finitos:
  assumes "0 < g" "0 < g0"
  shows "calcularComponentesHorizontales (Number (Fin g)) (Fin g0) =
           \<lparr>Kd = Fin (min 1 (g / g0)),
            Dd = Fin (max 0 (g * poli_difusa (min 1 (g / g0)))),
            Id = Fin (max 0 (g - max 0 (g * poli_difusa (min 1 (g / g0)))))\<rparr>"
proof -
  have g0: "g0 \<noteq> 0" using assms by simp
  show ?thesis
  proof (cases "1 < g / g0")
    case True
    then have m: "min 1 (g / g0) = 1" by simp
    show ?thesis
      using assms g0 True
      by (simp add: calcularComponentesHorizontales_def js_gt_def js_sub_def Let_def
          Math_pow_Fin poli_difusa_def m max_def)
  next
    case False
    then have m: "min 1 (g / g0) = g / g0" by simp
    show ?thesis
      using assms g0 False
      by (simp add: calcularComponentesHorizontales_def js_gt_def js_sub_def Let_def
          Math_pow_Fin poli_difusa_def m max_def)
  qed
qed

text \<open>
  C8. For strictly positive finite inputs the clearness index returned by
  \<open>calcularComponentesHorizontales\<close> is the ratio global/extraterrestrial when that
  ratio is at most 1 and exactly 1 otherwise; it lies in the interval from 0 to 1.
\<close>

theorem clearness_index_clamped:
  assumes "0 < g" and "0 < g0"
  shows "\<exists>k. Kd (calcularComponentesHorizontales (Number (Fin g)) (Fin g0)) = Fin k
             \<and> k = (if g / g0 \<le> 1 then g / g0 else 1) \<and> 0 \<le> k \<and> k \<le> 1"
  using assms by (simp add: componentes_finitos min_def)

theorem clearness_index_clamped_witness:
  "(0::real) < 3 \<and> (0::real) < 2
   \<and> (\<exists>k. Kd (calcularComponentesHorizontales (Number (Fin 3)) (Fin 2)) = Fin k
          \<and> k = (if (3::real) / 2 \<le> 1 then 3 / 2 else 1) \<and> 0 \<le> k \<and> k \<le> 1)"
  using clearness_index_clamped [of 3 2] by simp

text \<open>
  C3. The claim that direct plus diffuse equals the global horizontal irradiation for all
  positive finite inputs fails: at a clearness index of 0.1 the correlation gives a
  diffuse component above the global one, and the direct component is floored at 0.
\<close>

theorem componentes_suma_counterexample:
  "Dd (calcularComponentesHorizontales (Number (Fin 1)) (Fin 10)) = Fin 1.039502
   \<and> Id (calcularComponentesHorizontales (Number (Fin 1)) (Fin 10)) = Fin 0
   \<and> js_add (Id (calcularComponentesHorizontales (Number (Fin 1)) (Fin 10)))
             (Dd (calcularComponentesHorizontales (Number (Fin 1)) (Fin 10))) \<noteq> Fin 1"
  by (simp add: componentes_finitos poli_difusa_def power2_eq_square power3_eq_cube)

text \<open>
  C3, amended. For positive finite inputs both components are non-negative numbers, and
  the direct one is the computed difference of the global and the diffuse one, floored at
  0 and at most the global irradiation: it is 0 when the diffuse component reaches the
  global irradiation and positive otherwise. That the two add up to the global irradiation
  is not part of the statement.
\<close>

theorem componentes_suma:
  assumes "0 < g" and "0 < g0"
  shows "\<exists>d i. Dd (calcularComponentesHorizontales (Number (Fin g)) (Fin g0)) = Fin d
              \<and> Id (calcularComponentesHorizontales (Number (Fin g)) (Fin g0)) = Fin i
              \<and> 0 \<le> d \<and> 0 \<le> i \<and> i \<le> g
              \<and> Fin i = (if js_lt (js_sub (Fin g) (Fin d)) (Fin 0) then Fin 0
                          else js_sub (Fin g) (Fin d))
              \<and> (g \<le> d \<longrightarrow> i = 0) \<and> (d < g \<longrightarrow> 0 < i)"
  using assms by (simp add: componentes_finitos max_def js_sub_def)

theorem componentes_suma_witness:
  "(0::real) < 5 \<and> (0::real) < 10
   \<and> Dd (calcularComponentesHorizontales (Number (Fin 5)) (Fin 10)) = Fin 1.85375
   \<and> Id (calcularComponentesHorizontales (Number (Fin 5)) (Fin 10)) = Fin 3.14625
   \<and> (1.85375::real) < 5 \<and> (0::real) < 3.14625 \<and> (3.14625::real) \<le> 5
   \<and> js_sub (Fin 5) (Fin 1.85375) = Fin 3.14625"
  using componentes_suma [of 5 10]
  by (simp add: componentes_finitos poli_difusa_def power2_eq_square power3_eq_cube js_sub_def)

text \<open>
  Why the sum is left out: in binary64 the two components need not add up to the global
  irradiation even when the diffuse one is below it. At a global irradiation of 3.69 and
  an extraterrestrial one of 8.85 the diffuse component is 1.6501949780594887, the direct
  one 2.039805021940511, and their sum is 3.6899999999999995, one unit in the last place
  below the double 3.69.
\<close>

lemma suma_redondeada_b64:
  "decimal 369 100 = (8309141312498565, - 51)
   \<and> calcularComponentesHorizontales_b64 (decimal 369 100) (decimal 885 100) =
       Some ((7511088192089099, - 54), (7431817488277377, - 52), (4593232568359876, - 51))
   \<and> fmenor (7431817488277377, - 52) (8309141312498565, - 51)
   \<and> fadd (4593232568359876, - 51) (7431817488277377, - 52) = (8309141312498564, - 51)
   \<and> \<not> figual (8309141312498564, - 51) (8309141312498565, - 51)"
  by code_simp

section \<open>Properties of the beam transfer factor\<close>

lemma calcularRb_Fin:
  "calcularRb (Fin p) (Fin d) (Fin w) (Fin b) =
     Fin (if rb_den p d w = 0 then 0 else rb_num p d w b / rb_den p d w)"
  by (simp add: calcularRb_def Let_def js_sub_def js_eq_def rb_num_def rb_den_def)

text \<open>
  C7. On finite angles \<open>calcularRb\<close> always returns a finite number: 0 when the
  denominator is exactly 0, where it does not divide, and the quotient otherwise.
\<close>

theorem calcularRb_total:
  "\<exists>r. calcularRb (Fin p) (Fin d) (Fin w) (Fin b) = Fin r
       \<and> (rb_den p d w = 0 \<longrightarrow> r = 0)
       \<and> (rb_den p d w \<noteq> 0 \<longrightarrow> r = rb_num p d w b / rb_den p d w)"
  by (simp add: calcularRb_Fin)

theorem calcularRb_total_witness:
  "rb_den 0 0 0 = 0 \<and> calcularRb (Fin 0) (Fin 0) (Fin 0) (Fin (pi / 2)) = Fin 0
   \<and> rb_den 0 0 (pi / 2) \<noteq> 0 \<and> calcularRb (Fin 0) (Fin 0) (Fin (pi / 2)) (Fin 0) = Fin 1"
  using calcularRb_total [of 0 0 0 "pi / 2"] calcularRb_total [of 0 0 "pi / 2" 0]
  by (auto simp add: rb_den_def rb_num_def)

section \<open>Properties of the tilted irradiance\<close>

text \<open>
  C4. The claim that every output is \<open>NaN\<close> when the month has no usable data fails for
  the beam transfer factor: \<open>Rb\<close> is computed before the test and returned as it is.
\<close>

theorem inclinada_sin_dato_counterexample:
  "\<not> js_gt (ToNumber (Gd_kWh mes_sin_dato)) (Fin 0)
   \<and> Rb (calcularRadiacionInclinada (Fin 0) mes_sin_dato (Fin 0)) = Fin 1
   \<and> \<not> isNaN (Rb (calcularRadiacionInclinada (Fin 0) mes_sin_dato (Fin 0)))"
  by (simp add: mes_sin_dato_def calcularRadiacionInclinada_def Let_def js_gt_def
      calcularRb_Fin rb_den_def rb_num_def)

text \<open>
  C4, amended. When the global horizontal irradiation is not a number or not strictly
  positive, or the extraterrestrial irradiation is not strictly positive, the direct,
  diffuse and global tilted components are \<open>NaN\<close>, and \<open>Rb\<close> is the value of
  \<open>calcularRb\<close> at the month's geometry.
\<close>

theorem inclinada_sin_dato:
  assumes "\<not> typeof_number (Gd_kWh it) \<or> \<not> js_gt (ToNumber (Gd_kWh it)) (Fin 0)
           \<or> \<not> js_gt (G0d_kWh it) (Fin 0)"
  shows "calcularRadiacionInclinada inclinacionRadianes it latitudRadianes =
           \<lparr>Rb = calcularRb latitudRadianes (delta it) (omega_s it) inclinacionRadianes,
            Id_beta = NaN, Dd_beta = NaN, Gi = NaN\<rparr>"
  using assms by (auto simp add: calcularRadiacionInclinada_def Let_def)

theorem inclinada_sin_dato_witness:
  "\<not> js_gt (ToNumber (Gd_kWh mes_sin_dato)) (Fin 0)
   \<and> calcularRadiacionInclinada (Fin 0) mes_sin_dato (Fin 0) =
       \<lparr>Rb = Fin 1, Id_beta = NaN, Dd_beta = NaN, Gi = NaN\<rparr>"
  using inclinada_sin_dato [of mes_sin_dato "Fin 0" "Fin 0"]
  by (simp add: mes_sin_dato_def js_gt_def calcularRb_Fin rb_den_def rb_num_def)

lemma componentes_no_negativos:
  assumes "0 < g" "0 < g0"
  shows "\<exists>d i. Dd (calcularComponentesHorizontales (Number (Fin g)) (Fin g0)) = Fin d
            \<and> Id (calcularComponentesHorizontales (Number (Fin g)) (Fin g0)) = Fin i
            \<and> 0 \<le> d \<and> 0 \<le> i"
  using assms by (simp add: componentes_finitos)

lemma anisotropia_Fin:
  "Math_max (Fin 0) (Math_min (Fin 1) (Fin a)) = Fin (max 0 (min 1 a))"
  by (simp add: Math_max_def Math_min_def max_def min_def)

text \<open>
  C9. The claim that a tilt of 0 gives a global tilted irradiation exactly equal to the
  direct plus the diffuse horizontal component fails in the arithmetic of the program. For
  the month with a global irradiation of 0.5 and an extraterrestrial one of 2.5, at the
  equator with a declination of 0, \<open>calcularComponentesHorizontales\<close> returns
  \<open>Dd = 0.3904879999999999\<close> and \<open>Id = 0.10951200000000011\<close>, whose sum is the
  double 0.5; \<open>Rb\<close> is 1, the anisotropy index is 0.043804800000000046, the tilted
  diffuse component \<open>Dd * a * Rb + Dd * (1 - a) * Rd_term\<close> is 0.39048799999999984, one
  unit in the last place below \<open>Dd\<close>, and \<open>Gi\<close> is 0.49999999999999994.
\<close>

theorem inclinacion_cero_counterexample:
  "valor (9007199254740991, - 54) < 1 / 2 \<and> valor (4503599627370496, - 53) = 1 / 2
   \<and> calcularComponentesHorizontales_b64 (1, - 1) (5, - 1) =
       Some ((7205759403792794, - 55), (7034406445170599, - 54), (1972792809570393, - 54))
   \<and> figual Rb_ecuador (1, 0)
   \<and> calcularRadiacionInclinada_b64 Rb_ecuador (1, 0) (1972792809570393, - 54)
         (7034406445170599, - 54) (5, - 1) (1, - 1) =
       Some ((7891171238281572, - 56), (7034406445170598, - 54), (9007199254740991, - 54))
   \<and> fadd (1972792809570393, - 54) (7034406445170599, - 54) = (4503599627370496, - 53)
   \<and> fmenor (9007199254740991, - 54) (4503599627370496, - 53)
   \<and> \<not> figual (9007199254740991, - 54) (4503599627370496, - 53)"
proof -
  have v: "valor (9007199254740991, - 54) < 1 / 2" "valor (4503599627370496, - 53) = 1 / 2"
    by (simp_all add: valor_def)
  have c: "calcularComponentesHorizontales_b64 (1, - 1) (5, - 1) =
       Some ((7205759403792794, - 55), (7034406445170599, - 54), (1972792809570393, - 54))
   \<and> figual Rb_ecuador (1, 0)
   \<and> calcularRadiacionInclinada_b64 Rb_ecuador (1, 0) (1972792809570393, - 54)
         (7034406445170599, - 54) (5, - 1) (1, - 1) =
       Some ((7891171238281572, - 56), (7034406445170598, - 54), (9007199254740991, - 54))
   \<and> fadd (1972792809570393, - 54) (7034406445170599, - 54) = (4503599627370496, - 53)
   \<and> fmenor (9007199254740991, - 54) (4503599627370496, - 53)
   \<and> \<not> figual (9007199254740991, - 54) (4503599627370496, - 53)"
    by code_simp
  show ?thesis
    using v c by blast
qed

text \<open>
  C9, amended. For a month with positive finite global and extraterrestrial irradiation,
  whose diffuse and direct components are those of \<open>calcularComponentesHorizontales\<close>,
  and whose beam-transfer denominator is not zero, a tilt of 0 gives \<open>Rb = 1\<close>, a
  ground-reflected term of 0 and a tilted direct component that is the horizontal one.
  The tilted diffuse component is \<open>Dd * a + Dd * (1 - a)\<close>, where the anisotropy index
  \<open>a\<close> lies between 0 and 1, and \<open>Gi\<close> is the direct component plus that sum: it is
  the direct plus the diffuse horizontal component up to the rounding of the two products
  and their sum, and not exactly.
\<close>

theorem inclinacion_cero:
  assumes gd: "Gd_kWh it = Number (Fin g)" "0 < g"
    and g0: "G0d_kWh it = Fin g0" "0 < g0"
    and dd: "Dd it = Dd (calcularComponentesHorizontales (Gd_kWh it) (G0d_kWh it))"
    and idc: "Id it = Id (calcularComponentesHorizontales (Gd_kWh it) (G0d_kWh it))"
    and ang: "delta it = Fin d" "omega_s it = Fin w"
    and den: "rb_den p d w \<noteq> 0"
  shows "Rb (calcularRadiacionInclinada (Fin 0) it (Fin p)) = Fin 1
         \<and> reflejada (Fin 0) (ToNumber (Gd_kWh it)) = Fin 0
         \<and> Id_beta (calcularRadiacionInclinada (Fin 0) it (Fin p)) = Id it
         \<and> js_ge (indice_anisotropia it) (Fin 0) \<and> js_le (indice_anisotropia it) (Fin 1)
         \<and> Dd_beta (calcularRadiacionInclinada (Fin 0) it (Fin p)) =
             js_add (js_mul (Dd it) (indice_anisotropia it))
                    (js_mul (Dd it) (js_sub (Fin 1) (indice_anisotropia it)))
         \<and> Gi (calcularRadiacionInclinada (Fin 0) it (Fin p)) =
             js_add (Id it) (Dd_beta (calcularRadiacionInclinada (Fin 0) it (Fin p)))"
proof -
  obtain dv iv where c: "Dd it = Fin dv" "Id it = Fin iv" "0 \<le> dv" "0 \<le> iv"
    using componentes_no_negativos [OF gd(2) g0(2)] dd idc gd(1) g0(1) by auto
  have rb: "calcularRb (Fin p) (Fin d) (Fin w) (Fin 0) = Fin 1"
    using den by (simp add: calcularRb_Fin rb_num_def rb_den_def)
  have rr: "reflejada (Fin 0) (Fin g) = Fin 0"
    by (simp add: reflejada_def Let_def js_sub_def)
  have g0n: "g0 \<noteq> 0" using g0(2) by simp
  have a: "indice_anisotropia it = Fin (max 0 (min 1 (iv / g0)))"
    using c g0 g0n by (simp add: indice_anisotropia_def anisotropia_Fin)
  have a': "Math_max (Fin 0) (Math_min (Fin 1) (js_div (Id it) (G0d_kWh it))) =
              Fin (max 0 (min 1 (iv / g0)))"
    using a by (simp add: indice_anisotropia_def)
  have r: "calcularRadiacionInclinada (Fin 0) it (Fin p) =
             \<lparr>Rb = Fin 1, Id_beta = Fin iv,
              Dd_beta = js_add (js_mul (Fin dv) (Fin (max 0 (min 1 (iv / g0)))))
                               (js_mul (Fin dv) (js_sub (Fin 1) (Fin (max 0 (min 1 (iv / g0)))))),
              Gi = js_add (Fin iv)
                     (js_add (js_mul (Fin dv) (Fin (max 0 (min 1 (iv / g0)))))
                             (js_mul (Fin dv) (js_sub (Fin 1) (Fin (max 0 (min 1 (iv / g0)))))))\<rparr>"
    using gd g0 c ang a'
    by (simp add: calcularRadiacionInclinada_def Let_def js_gt_def rb rr js_sub_def)
  have ab: "js_ge (indice_anisotropia it) (Fin 0)" "js_le (indice_anisotropia it) (Fin 1)"
    using a by (auto simp add: js_ge_def js_le_def js_eq_def js_gt_def max_def min_def)
  show ?thesis
    using a ab r rr c gd by simp
qed

theorem inclinacion_cero_witness:
  "Dd mes_ejemplo = Dd (calcularComponentesHorizontales (Gd_kWh mes_ejemplo) (G0d_kWh mes_ejemplo))
   \<and> Id mes_ejemplo = Id (calcularComponentesHorizontales (Gd_kWh mes_ejemplo) (G0d_kWh mes_ejemplo))
   \<and> rb_den 0 0 (pi / 2) \<noteq> 0
   \<and> Rb (calcularRadiacionInclinada (Fin 0) mes_ejemplo (Fin 0)) = Fin 1
   \<and> reflejada (Fin 0) (Fin 5) = Fin 0
   \<and> Id_beta (calcularRadiacionInclinada (Fin 0) mes_ejemplo (Fin 0)) = Fin 3.14625
   \<and> indice_anisotropia mes_ejemplo = Fin 0.314625
   \<and> Dd_beta (calcularRadiacionInclinada (Fin 0) mes_ejemplo (Fin 0)) =
       js_add (js_mul (Fin 1.85375) (Fin 0.314625))
              (js_mul (Fin 1.85375) (js_sub (Fin 1) (Fin 0.314625)))
   \<and> Gi (calcularRadiacionInclinada (Fin 0) mes_ejemplo (Fin 0)) =
       js_add (Fin 3.14625) (Dd_beta (calcularRadiacionInclinada (Fin 0) mes_ejemplo (Fin 0)))"
proof -
  have h: "Gd_kWh mes_ejemplo = Number (Fin 5)" "G0d_kWh mes_ejemplo = Fin 10"
    "delta mes_ejemplo = Fin 0" "omega_s mes_ejemplo = Fin (pi / 2)"
    "Dd mes_ejemplo = Fin 1.85375" "Id mes_ejemplo = Fin 3.14625"
    by (simp_all add: mes_ejemplo_def)
  have c: "calcularComponentesHorizontales (Number (Fin 5)) (Fin 10) =
             \<lparr>Kd = Fin 0.5, Dd = Fin 1.85375, Id = Fin 3.14625\<rparr>"
    by (simp add: componentes_finitos poli_difusa_def power2_eq_square power3_eq_cube)
  have dd: "Dd mes_ejemplo =
              Dd (calcularComponentesHorizontales (Gd_kWh mes_ejemplo) (G0d_kWh mes_ejemplo))"
    and idc: "Id mes_ejemplo =
              Id (calcularComponentesHorizontales (Gd_kWh mes_ejemplo) (G0d_kWh mes_ejemplo))"
    by (simp_all add: h c)
  have d: "rb_den 0 0 (pi / 2) \<noteq> 0" by (simp add: rb_den_def)
  have a: "indice_anisotropia mes_ejemplo = Fin 0.314625"
    by (simp add: indice_anisotropia_def h anisotropia_Fin)
  have p: "(0::real) < 5" "(0::real) < 10" by simp_all
  note t = inclinacion_cero [OF h(1) p(1) h(2) p(2) dd idc h(3) h(4) d]
  show ?thesis
    using t dd idc d by (simp only: h a ToNumber.simps) simp
qed

section \<open>Properties of the extraterrestrial irradiation\<close>

lemma entre_menos_uno_y_uno:
  assumes "js_ge x (Fin (- 1))" "js_le x (Fin 1)"
  shows "\<exists>a. x = Fin a \<and> - 1 \<le> a \<and> a \<le> 1"
  using assms by (cases x) (auto simp add: js_ge_def js_le_def js_eq_def)

lemma calcularG0d_omega_rango:
  "\<exists>w. omega_s_r (calcularG0d lat dl dn_v) = Fin w \<and> 0 \<le> w \<and> w \<le> pi"
proof -
  let ?x = "js_mul (js_neg (Math_tan lat)) (Math_tan dl)"
  show ?thesis
  proof (cases "js_ge ?x (Fin (- 1)) \<and> js_le ?x (Fin 1)")
    case True
    then obtain a where a: "?x = Fin a" "- 1 \<le> a" "a \<le> 1"
      using entre_menos_uno_y_uno by blast
    have "omega_s_r (calcularG0d lat dl dn_v) = Fin (arccos a)"
      using True a by (simp add: calcularG0d_def Let_def)
    moreover have "0 \<le> arccos a" "arccos a \<le> pi"
      using a by (simp_all add: arccos_lbound arccos_ubound)
    ultimately show ?thesis by blast
  next
    case False
    then show ?thesis
      by (auto simp add: calcularG0d_def Let_def PI_def)
  qed
qed

text \<open>
  C5. On a finite latitude, declination and day, \<open>calcularG0d\<close> takes the sunset hour
  angle \<open>acos(-tan(lat)*tan(decl))\<close> when that argument lies between -1 and 1; below -1
  the angle is \<open>pi\<close> and the irradiation has only the term \<open>pi*sin(decl)*sin(lat)\<close>;
  above 1 the angle and the irradiation are 0. On every input whatsoever the sunset hour
  angle is a finite number between 0 and \<open>pi\<close>, never \<open>NaN\<close>.
\<close>

theorem calcularG0d_ramas:
  "(- 1 \<le> - tan p * tan d \<and> - tan p * tan d \<le> 1 \<longrightarrow>
      omega_s_r (calcularG0d (Fin p) (Fin d) (Fin n)) = Fin (arccos (- tan p * tan d)))
   \<and> (- tan p * tan d < - 1 \<longrightarrow>
      omega_s_r (calcularG0d (Fin p) (Fin d) (Fin n)) = Fin pi
      \<and> G0d_kWh_r (calcularG0d (Fin p) (Fin d) (Fin n)) =
          Fin (24 / pi * 1367 * (1 + 0.033 * cos (2 * pi * n / 365)) * (pi * sin d * sin p) / 1000))
   \<and> (1 < - tan p * tan d \<longrightarrow>
      omega_s_r (calcularG0d (Fin p) (Fin d) (Fin n)) = Fin 0
      \<and> G0d_kWh_r (calcularG0d (Fin p) (Fin d) (Fin n)) = Fin 0)
   \<and> (\<exists>w. omega_s_r (calcularG0d lat dl dn_v) = Fin w \<and> 0 \<le> w \<and> w \<le> pi)"
proof (intro conjI impI)
  assume "- 1 \<le> - tan p * tan d \<and> - tan p * tan d \<le> 1"
  then show "omega_s_r (calcularG0d (Fin p) (Fin d) (Fin n)) = Fin (arccos (- tan p * tan d))"
    by (auto simp add: calcularG0d_def Let_def js_ge_def js_le_def js_eq_def)
next
  assume a: "- tan p * tan d < - 1"
  then show "omega_s_r (calcularG0d (Fin p) (Fin d) (Fin n)) = Fin pi"
    by (auto simp add: calcularG0d_def Let_def js_ge_def js_le_def js_eq_def PI_def)
  from a show "G0d_kWh_r (calcularG0d (Fin p) (Fin d) (Fin n)) =
          Fin (24 / pi * 1367 * (1 + 0.033 * cos (2 * pi * n / 365)) * (pi * sin d * sin p) / 1000)"
    by (auto simp add: calcularG0d_def Let_def js_ge_def js_le_def js_eq_def PI_def
        FACTOR_G0D_def ICS_def)
next
  assume a: "1 < - tan p * tan d"
  then show "omega_s_r (calcularG0d (Fin p) (Fin d) (Fin n)) = Fin 0"
    by (auto simp add: calcularG0d_def Let_def js_ge_def js_le_def js_eq_def)
  from a show "G0d_kWh_r (calcularG0d (Fin p) (Fin d) (Fin n)) = Fin 0"
    by (auto simp add: calcularG0d_def Let_def js_ge_def js_le_def js_eq_def)
next
  show "\<exists>w. omega_s_r (calcularG0d lat dl dn_v) = Fin w \<and> 0 \<le> w \<and> w \<le> pi"
    by (rule calcularG0d_omega_rango)
qed

theorem calcularG0d_ramas_witness:
  "omega_s_r (calcularG0d (Fin 0) (Fin 0) (Fin 80)) = Fin (pi / 2)
   \<and> - tan (pi / 3) * tan (pi / 3) < - 1
   \<and> omega_s_r (calcularG0d (Fin (pi / 3)) (Fin (pi / 3)) (Fin 172)) = Fin pi
   \<and> 1 < - tan (pi / 3) * tan (- (pi / 3))
   \<and> omega_s_r (calcularG0d (Fin (pi / 3)) (Fin (- (pi / 3))) (Fin 355)) = Fin 0
   \<and> G0d_kWh_r (calcularG0d (Fin (pi / 3)) (Fin (- (pi / 3))) (Fin 355)) = Fin 0"
proof -
  have a: "- tan (pi / 3) * tan (pi / 3) < - 1" by (simp add: tan_60)
  have b: "1 < - tan (pi / 3) * tan (- (pi / 3))" by (simp add: tan_60)
  show ?thesis
    using calcularG0d_ramas [of 0 0 80 NaN NaN NaN]
      calcularG0d_ramas [of "pi / 3" "pi / 3" 172 NaN NaN NaN]
      calcularG0d_ramas [of "pi / 3" "- (pi / 3)" 355 NaN NaN NaN] a b
    by simp
qed

section \<open>Properties of the tilt search\<close>

declare bucle_beta.simps [simp del]
declare angulos.simps [simp del]

lemma angulos_0: "angulos 0 = candidatos"
  by (simp add: angulos.simps candidatos_def)

lemma bucle_beta_foldl:
  "bucle_beta lat rs b st = foldl (\<lambda>s c. paso_beta lat rs c s) st (angulos b)"
proof (induction lat rs b st rule: bucle_beta.induct)
  case (1 lat rs b st)
  show ?case
  proof (cases "b \<le> 90")
    case True
    have "bucle_beta lat rs b st = bucle_beta lat rs (b + 5) (paso_beta lat rs b st)"
      using True by (subst bucle_beta.simps) simp
    also have "\<dots> = foldl (\<lambda>s c. paso_beta lat rs c s) (paso_beta lat rs b st) (angulos (b + 5))"
      using 1 True by simp
    also have "\<dots> = foldl (\<lambda>s c. paso_beta lat rs c s) st (angulos b)"
      using True by (subst (2) angulos.simps) simp
    finally show ?thesis .
  next
    case False
    then show ?thesis
      by (subst bucle_beta.simps, subst angulos.simps) simp
  qed
qed

lemma paso_beta_fila:
  "paso_beta lat rs b st =
     (if js_gt (GiAnual (fila_beta lat rs b)) (fst (snd st))
      then (fst st @ [fila_beta lat rs b], GiAnual (fila_beta lat rs b), Some b)
      else (fst st @ [fila_beta lat rs b], fst (snd st), snd (snd st)))"
  by (simp add: paso_beta_def fila_beta_def acc_beta_def Let_def)

lemma filas_foldl:
  "fst (foldl (\<lambda>s c. paso_beta lat rs c s) st bs) = fst st @ map (fila_beta lat rs) bs"
  by (induction bs arbitrary: st) (simp_all add: paso_beta_fila)

lemma angulo_se_conserva:
  "snd (snd st) \<noteq> None \<Longrightarrow> snd (snd (foldl (\<lambda>s c. paso_beta lat rs c s) st bs)) \<noteq> None"
  by (induction bs arbitrary: st) (simp_all add: paso_beta_fila)

lemma seleccion_inv:
  assumes fin: "\<forall>c \<in> set bs. GiAnual (fila_beta lat rs c) = Fin (t c)"
    and ord: "sorted_wrt (<) bs"
  shows "\<exists>m. fst (snd (foldl (\<lambda>s c. paso_beta lat rs c s) (r0, Fin (- 1), None) bs)) = Fin m
           \<and> (case snd (snd (foldl (\<lambda>s c. paso_beta lat rs c s) (r0, Fin (- 1), None) bs)) of
                None \<Rightarrow> m = - 1 \<and> (\<forall>c \<in> set bs. t c \<le> - 1)
              | Some a \<Rightarrow> a \<in> set bs \<and> m = t a \<and> - 1 < t a
                  \<and> (\<forall>c \<in> set bs. t c \<le> t a) \<and> (\<forall>c \<in> set bs. c < a \<longrightarrow> t c < t a))"
  using assms
proof (induction bs rule: rev_induct)
  case Nil
  then show ?case by simp
next
  case (snoc b bs)
  let ?st = "foldl (\<lambda>s c. paso_beta lat rs c s) (r0, Fin (- 1), None) bs"
  have ord': "sorted_wrt (<) bs" and gt: "\<forall>c \<in> set bs. c < b"
    using snoc.prems(2) by (auto simp add: sorted_wrt_append)
  have fin': "\<forall>c \<in> set bs. GiAnual (fila_beta lat rs c) = Fin (t c)"
    and tb: "GiAnual (fila_beta lat rs b) = Fin (t b)"
    using snoc.prems(1) by auto
  from snoc.IH [OF fin' ord'] obtain m where m: "fst (snd ?st) = Fin m"
    and inv: "(case snd (snd ?st) of
                None \<Rightarrow> m = - 1 \<and> (\<forall>c \<in> set bs. t c \<le> - 1)
              | Some a \<Rightarrow> a \<in> set bs \<and> m = t a \<and> - 1 < t a
                  \<and> (\<forall>c \<in> set bs. t c \<le> t a) \<and> (\<forall>c \<in> set bs. c < a \<longrightarrow> t c < t a))"
    by blast
  show ?case
  proof (cases "m < t b")
    case True
    have le: "\<forall>c \<in> set bs. t c \<le> m"
      using inv by (cases "snd (snd ?st)") auto
    have m1: "- 1 \<le> m"
      using inv by (cases "snd (snd ?st)") auto
    show ?thesis
      using True m tb le m1 gt
      by (auto simp add: paso_beta_fila js_gt_def)
  next
    case False
    show ?thesis
    proof (cases "snd (snd ?st)")
      case None
      then show ?thesis
        using False m tb inv by (auto simp add: paso_beta_fila js_gt_def)
    next
      case (Some a)
      then show ?thesis
        using False m tb inv gt by (auto simp add: paso_beta_fila js_gt_def)
    qed
  qed
qed

lemma sorted_candidatos: "sorted_wrt (<) candidatos"
  by (simp add: candidatos_def)

lemma find_fila:
  "a \<in> set bs \<Longrightarrow> find (\<lambda>res. beta res = a) (map (fila_beta lat rs) bs)
     = Some (fila_beta lat rs a)"
  by (induction bs) (auto simp add: fila_beta_def)

lemma generarTabla_no_vacia:
  assumes "rs \<noteq> []"
  shows "tabla_optima (generarTablaAnualOptima lat rs) = map (fila_beta lat rs) candidatos"
    and "anguloOptimo (generarTablaAnualOptima lat rs) =
           snd (snd (foldl (\<lambda>s c. paso_beta lat rs c s) ([], Fin (- 1), None) candidatos))"
  using assms
  by (simp_all add: generarTablaAnualOptima_def Let_def bucle_beta_foldl angulos_0 filas_foldl)

lemma generarTabla_GiMin:
  assumes "rs \<noteq> []" "anguloOptimo (generarTablaAnualOptima lat rs) = Some a" "a \<in> set candidatos"
  shows "GiMinMensual (generarTablaAnualOptima lat rs) = GiMin (fila_beta lat rs a)"
proof -
  have "snd (snd (foldl (\<lambda>s c. paso_beta lat rs c s) ([], Fin (- 1), None) candidatos)) = Some a"
    using assms generarTabla_no_vacia(2) [of rs lat] by simp
  then show ?thesis
    using assms(1,3)
    by (simp add: generarTablaAnualOptima_def Let_def bucle_beta_foldl angulos_0 filas_foldl
        find_fila)
qed

lemma es_finito_Fin: "es_finito x \<Longrightarrow> \<exists>v. x = Fin v"
  by (cases x) simp_all

lemma conversion_grados: "js_div (Fin (real b)) RAD_A_DEG = Fin (real b * pi / 180)"
  by (simp add: RAD_A_DEG_def PI_def)

lemma js_sub_cero: "js_sub x (Fin 0) = x"
  by (cases x) (simp_all add: js_sub_def)

lemma calcularRb_cero:
  "calcularRb lat dl w (Fin 0) = NaN \<or> calcularRb lat dl w (Fin 0) = Fin 0
   \<or> calcularRb lat dl w (Fin 0) = Fin 1"
proof -
  let ?X = "js_add (js_mul (js_mul w (Math_sin dl)) (Math_sin lat))
                   (js_mul (js_mul (Math_cos dl) (Math_cos lat)) (Math_sin w))"
  have "calcularRb lat dl w (Fin 0) = (if js_eq ?X (Fin 0) then Fin 0 else js_div ?X ?X)"
    by (simp add: calcularRb_def Let_def js_sub_cero)
  then show ?thesis
    by (cases ?X) (auto simp add: js_eq_def)
qed

lemma reflejada_cero_Fin: "reflejada (Fin 0) (Fin g) = Fin 0"
  by (simp add: reflejada_def Let_def js_sub_def)

lemma reflejada_cero_PosInf: "reflejada (Fin 0) PosInf = NaN"
  by (simp add: reflejada_def Let_def js_sub_def inf_of_sign_def)

lemma js_add_NaN_right: "js_add x NaN = NaN"
  by (cases x) simp_all

lemma js_mul_NaN_right: "js_mul x NaN = NaN"
  by (cases x) simp_all

lemma js_gt_cero: "js_gt x (Fin 0) \<Longrightarrow> (\<exists>v. x = Fin v \<and> 0 < v) \<or> x = PosInf"
  by (cases x) (simp_all add: js_gt_def)

lemma componentes_G0d_infinito:
  assumes "0 < g"
  shows "calcularComponentesHorizontales (Number (Fin g)) PosInf =
           \<lparr>Kd = Fin 0, Dd = Fin (g * 1.39), Id = Fin 0\<rparr>"
  using assms
  by (simp add: calcularComponentesHorizontales_def js_gt_def js_sub_def Let_def
      numeral_2_eq_2 numeral_3_eq_3)

text \<open>The global tilted irradiation at a tilt of 0 on finite data.\<close>

lemma Gi_cero_finito:
  assumes rb: "rbv = Fin 0 \<or> rbv = Fin 1" and "0 \<le> dv" "0 \<le> iv" "0 \<le> a" "a \<le> 1"
  shows "\<exists>x. js_add (js_add (if js_lt (js_mul (Fin iv) rbv) (Fin 0) then Fin 0 else js_mul (Fin iv) rbv)
                 (js_add (js_mul (js_mul (Fin dv) (Fin a)) rbv)
                         (js_mul (js_mul (Fin dv) (js_sub (Fin 1) (Fin a)))
                                 (js_mul (Fin 0.5) (js_add (Fin 1) (Math_cos (Fin 0)))))))
              (Fin 0) = Fin x \<and> 0 \<le> x"
  using assms by (auto simp add: js_sub_def)

lemma Gi_cero:
  assumes dc: "de_componentes it"
  shows "Gi (calcularRadiacionInclinada (Fin 0) it lat) = NaN
         \<or> (\<exists>x. Gi (calcularRadiacionInclinada (Fin 0) it lat) = Fin x \<and> 0 \<le> x)"
proof (cases "typeof_number (Gd_kWh it) \<and> js_gt (ToNumber (Gd_kWh it)) (Fin 0)
              \<and> js_gt (G0d_kWh it) (Fin 0)")
  case False
  then show ?thesis
    by (auto simp add: calcularRadiacionInclinada_def Let_def)
next
  case True
  then obtain gn where gn: "Gd_kWh it = Number gn" "js_gt gn (Fin 0)"
    by (cases "Gd_kWh it") auto
  have g0: "js_gt (G0d_kWh it) (Fin 0)" using True by simp
  let ?rb = "calcularRb lat (delta it) (omega_s it) (Fin 0)"
  show ?thesis
  proof (cases "gn = PosInf")
    case True
    then have "Gi (calcularRadiacionInclinada (Fin 0) it lat) = NaN"
      using gn g0
      by (simp add: calcularRadiacionInclinada_def Let_def reflejada_cero_PosInf js_add_NaN_right)
    then show ?thesis by simp
  next
    case False
    then obtain g where g: "gn = Fin g" "0 < g"
      using js_gt_cero [OF gn(2)] by auto
    have comp: "\<exists>dv iv. Dd it = Fin dv \<and> Id it = Fin iv \<and> 0 \<le> dv \<and> 0 \<le> iv"
    proof -
      from js_gt_cero [OF g0] show ?thesis
      proof
        assume "\<exists>v. G0d_kWh it = Fin v \<and> 0 < v"
        then obtain v where v: "G0d_kWh it = Fin v" "0 < v" by blast
        show ?thesis
          using dc gn(1) g v by (simp add: de_componentes_def componentes_finitos)
      next
        assume "G0d_kWh it = PosInf"
        then have "Dd it = Fin (g * 1.39) \<and> Id it = Fin 0"
          using dc gn(1) g by (simp add: de_componentes_def componentes_G0d_infinito)
        moreover have "0 \<le> g * 1.39" using g by simp
        ultimately show ?thesis by blast
      qed
    qed
    then obtain dv iv where c: "Dd it = Fin dv" "Id it = Fin iv" "0 \<le> dv" "0 \<le> iv"
      by blast
    have ai: "\<exists>a. Math_max (Fin 0) (Math_min (Fin 1) (js_div (Id it) (G0d_kWh it))) = Fin a
                \<and> 0 \<le> a \<and> a \<le> 1"
    proof -
      from js_gt_cero [OF g0] show ?thesis
      proof
        assume "\<exists>v. G0d_kWh it = Fin v \<and> 0 < v"
        then obtain v where v: "G0d_kWh it = Fin v" "0 < v" by blast
        then show ?thesis
          using c by (simp add: Math_max_def Math_min_def)
      next
        assume "G0d_kWh it = PosInf"
        then show ?thesis
          using c by (simp add: Math_max_def Math_min_def)
      qed
    qed
    then obtain a where a: "Math_max (Fin 0) (Math_min (Fin 1) (js_div (Id it) (G0d_kWh it))) = Fin a"
      "0 \<le> a" "a \<le> 1" by blast
    have gi: "Gi (calcularRadiacionInclinada (Fin 0) it lat) =
        js_add (js_add (if js_lt (js_mul (Fin iv) ?rb) (Fin 0) then Fin 0 else js_mul (Fin iv) ?rb)
                 (js_add (js_mul (js_mul (Fin dv) (Fin a)) ?rb)
                         (js_mul (js_mul (Fin dv) (js_sub (Fin 1) (Fin a)))
                                 (js_mul (Fin 0.5) (js_add (Fin 1) (Math_cos (Fin 0)))))))
              (Fin 0)"
      using True gn g c a(1)
      by (simp add: calcularRadiacionInclinada_def Let_def reflejada_cero_Fin)
    from calcularRb_cero [of lat "delta it" "omega_s it"] show ?thesis
    proof
      assume "?rb = NaN"
      then show ?thesis
        using gi by (simp add: js_mul_NaN_right)
    next
      assume "?rb = Fin 0 \<or> ?rb = Fin 1"
      from Gi_cero_finito [OF this c(3,4) a(2,3)] show ?thesis
        using gi by simp
    qed
  qed
qed

lemma acumular_foldl:
  assumes "\<forall>it \<in> set rs. Gi (calcularRadiacionInclinada br it lat) = NaN
             \<or> (\<exists>x. Gi (calcularRadiacionInclinada br it lat) = Fin x)"
  shows "fst (foldl (acumular_mes lat br) (Fin s, l) rs) =
           Fin (s + sum_list (map (\<lambda>it. case Gi (calcularRadiacionInclinada br it lat) of
                                          Fin x \<Rightarrow> x * real (diasEnMes it) | _ \<Rightarrow> 0) rs))"
  using assms
proof (induction rs arbitrary: s l)
  case Nil
  then show ?case by simp
next
  case (Cons it rs)
  have rest: "\<forall>it \<in> set rs. Gi (calcularRadiacionInclinada br it lat) = NaN
             \<or> (\<exists>x. Gi (calcularRadiacionInclinada br it lat) = Fin x)"
    using Cons.prems by simp
  from Cons.prems have "Gi (calcularRadiacionInclinada br it lat) = NaN
             \<or> (\<exists>x. Gi (calcularRadiacionInclinada br it lat) = Fin x)" by simp
  then show ?case
  proof
    assume n: "Gi (calcularRadiacionInclinada br it lat) = NaN"
    then show ?thesis
      using Cons.IH [OF rest, of s l] by (simp add: acumular_mes_def Let_def)
  next
    assume "\<exists>x. Gi (calcularRadiacionInclinada br it lat) = Fin x"
    then obtain x where x: "Gi (calcularRadiacionInclinada br it lat) = Fin x" by blast
    then show ?thesis
      using Cons.IH [OF rest, of "s + x * real (diasEnMes it)" "l @ [Fin x]"]
      by (simp add: acumular_mes_def Let_def add.assoc)
  qed
qed

lemma GiAnual_rendimiento:
  assumes "\<forall>it \<in> set rs.
             Gi (calcularRadiacionInclinada (js_div (Fin (real b)) RAD_A_DEG) it lat) = NaN
             \<or> (\<exists>x. Gi (calcularRadiacionInclinada (js_div (Fin (real b)) RAD_A_DEG) it lat) = Fin x)"
  shows "GiAnual (fila_beta lat rs b) = Fin (rendimiento_anual lat rs b)"
proof -
  have "fst (acc_beta lat rs b) = Fin (0 + sum_list (map (contribucion lat b) rs))"
    unfolding acc_beta_def contribucion_def
    by (rule acumular_foldl [OF assms])
  then show ?thesis
    by (simp add: fila_beta_def rendimiento_anual_def)
qed

lemma conversion_cero: "js_div (Fin 0) RAD_A_DEG = Fin 0"
  by (simp add: RAD_A_DEG_def PI_def)

lemma contribucion_cero_no_negativa:
  assumes "de_componentes it"
  shows "0 \<le> contribucion lat 0 it"
  using Gi_cero [OF assms, of lat]
  by (auto simp add: contribucion_def conversion_cero)

lemma rendimiento_cero_no_negativo:
  assumes "\<forall>it \<in> set rs. de_componentes it"
  shows "0 \<le> rendimiento_anual lat rs 0"
proof -
  have "0 \<le> sum_list (map (contribucion lat 0) rs)"
    using assms by (intro sum_list_nonneg) (auto simp add: contribucion_cero_no_negativa)
  then show ?thesis by (simp add: rendimiento_anual_def)
qed

lemma GiAnual_cero:
  assumes "\<forall>it \<in> set rs. de_componentes it"
  shows "GiAnual (fila_beta lat rs 0) = Fin (rendimiento_anual lat rs 0)"
proof (rule GiAnual_rendimiento)
  show "\<forall>it \<in> set rs.
          Gi (calcularRadiacionInclinada (js_div (Fin (real 0)) RAD_A_DEG) it lat) = NaN
          \<or> (\<exists>x. Gi (calcularRadiacionInclinada (js_div (Fin (real 0)) RAD_A_DEG) it lat) = Fin x)"
    using assms Gi_cero [of _ lat] by (auto simp add: conversion_cero)
qed

lemma candidatos_Cons: "candidatos = 0 # tl candidatos"
  by (simp add: candidatos_def)

lemma nunca_nulo:
  assumes "rs \<noteq> []" and "\<forall>it \<in> set rs. de_componentes it"
  shows "anguloOptimo (generarTablaAnualOptima lat rs) \<noteq> None"
proof -
  let ?f = "\<lambda>s c. paso_beta lat rs c s"
  have p0: "snd (snd (paso_beta lat rs 0 ([], Fin (- 1), None))) \<noteq> None"
    using GiAnual_cero [OF assms(2), of lat] rendimiento_cero_no_negativo [OF assms(2), of lat]
    by (simp add: paso_beta_fila js_gt_def)
  have "foldl ?f ([], Fin (- 1), None) candidatos =
          foldl ?f (paso_beta lat rs 0 ([], Fin (- 1), None)) (tl candidatos)"
    by (subst candidatos_Cons) simp
  then have "snd (snd (foldl ?f ([], Fin (- 1), None) candidatos)) \<noteq> None"
    using angulo_se_conserva [OF p0] by simp
  then show ?thesis
    using generarTabla_no_vacia(2) [OF assms(1), of lat] by simp
qed

text \<open>On a valid sample \<open>Gi\<close> is \<open>NaN\<close> or finite at every finite tilt.\<close>

lemma Gi_muestra_valida:
  assumes "muestra_valida it"
  shows "Gi (calcularRadiacionInclinada (Fin b) it (Fin p)) = NaN
         \<or> (\<exists>x. Gi (calcularRadiacionInclinada (Fin b) it (Fin p)) = Fin x)"
proof -
  from assms obtain g g0 d w where f: "Gd_kWh it = Number (Fin g)" "0 < g"
      "G0d_kWh it = Fin g0" "delta it = Fin d" "omega_s it = Fin w"
    and dc: "de_componentes it"
    unfolding muestra_valida_def
    by (cases "Gd_kWh it") (auto simp add: js_gt_def dest!: es_finito_Fin)
  show ?thesis
  proof (cases "0 < g0")
    case False
    then show ?thesis
      using f by (simp add: calcularRadiacionInclinada_def Let_def js_gt_def)
  next
    case True
    then have c: "Dd it = Fin (max 0 (g * poli_difusa (min 1 (g / g0))))"
        "Id it = Fin (max 0 (g - max 0 (g * poli_difusa (min 1 (g / g0)))))"
      using dc f by (simp_all add: de_componentes_def componentes_finitos)
    have g0n: "g0 \<noteq> 0" using True by simp
    show ?thesis
      using f True g0n
      by (simp add: calcularRadiacionInclinada_def Let_def js_gt_def c calcularRb_Fin
          anisotropia_Fin reflejada_def js_sub_def del: max.absorb1 max.absorb2 max.absorb3 max.absorb4)
  qed
qed

lemma GiAnual_muestras_validas:
  assumes "\<forall>it \<in> set rs. muestra_valida it"
  shows "GiAnual (fila_beta (Fin p) rs b) = Fin (rendimiento_anual (Fin p) rs b)"
proof (rule GiAnual_rendimiento)
  show "\<forall>it \<in> set rs.
          Gi (calcularRadiacionInclinada (js_div (Fin (real b)) RAD_A_DEG) it (Fin p)) = NaN
          \<or> (\<exists>x. Gi (calcularRadiacionInclinada (js_div (Fin (real b)) RAD_A_DEG) it (Fin p)) = Fin x)"
    using assms Gi_muestra_valida by (auto simp add: conversion_grados)
qed

lemma muestra_valida_de_componentes: "muestra_valida it \<Longrightarrow> de_componentes it"
  by (simp add: muestra_valida_def)

lemma seleccion_final:
  assumes ne: "rs \<noteq> []"
    and fin: "\<forall>c \<in> set candidatos. GiAnual (fila_beta lat rs c) = Fin (t c)"
    and pos: "- 1 < t 0"
  shows "\<exists>a. anguloOptimo (generarTablaAnualOptima lat rs) = Some a \<and> a \<in> set candidatos
            \<and> (\<forall>c \<in> set candidatos. t c \<le> t a)
            \<and> (\<forall>c \<in> set candidatos. c < a \<longrightarrow> t c < t a)"
proof -
  let ?st = "foldl (\<lambda>s c. paso_beta lat rs c s) ([], Fin (- 1), None) candidatos"
  from seleccion_inv [OF fin sorted_candidatos, of "[]"] obtain m where
    inv: "(case snd (snd ?st) of
                None \<Rightarrow> m = - 1 \<and> (\<forall>c \<in> set candidatos. t c \<le> - 1)
              | Some a \<Rightarrow> a \<in> set candidatos \<and> m = t a \<and> - 1 < t a
                  \<and> (\<forall>c \<in> set candidatos. t c \<le> t a)
                  \<and> (\<forall>c \<in> set candidatos. c < a \<longrightarrow> t c < t a))"
    by blast
  have z: "0 \<in> set candidatos" by (simp add: candidatos_def)
  show ?thesis
  proof (cases "snd (snd ?st)")
    case None
    then have "t 0 \<le> - 1" using inv z by auto
    then show ?thesis using pos by simp
  next
    case (Some a)
    then show ?thesis
      using inv generarTabla_no_vacia(2) [OF ne, of lat] by auto
  qed
qed

text \<open>
  C1. For a non-empty list of valid month samples and a finite latitude, the search
  evaluates exactly the 19 candidate angles 0, 5, ..., 90; the annual total of each
  candidate is the sum over the months of \<open>Gi\<close> times the number of days, months
  with a \<open>NaN\<close> skipped, divided by 1000; and the angle returned is the candidate
  whose total is greatest, the smallest such candidate when several are equal.
\<close>

theorem busqueda_inclinacion_optima:
  assumes "rs \<noteq> []" and "\<forall>it \<in> set rs. muestra_valida it"
  shows "map beta (tabla_optima (generarTablaAnualOptima (Fin p) rs)) =
           [0, 5, 10, 15, 20, 25, 30, 35, 40, 45, 50, 55, 60, 65, 70, 75, 80, 85, 90]
         \<and> length (tabla_optima (generarTablaAnualOptima (Fin p) rs)) = 19
         \<and> (\<forall>f \<in> set (tabla_optima (generarTablaAnualOptima (Fin p) rs)).
               GiAnual f = Fin (rendimiento_anual (Fin p) rs (beta f)))
         \<and> (\<exists>a. anguloOptimo (generarTablaAnualOptima (Fin p) rs) = Some a
               \<and> a \<in> set candidatos
               \<and> (\<forall>c \<in> set candidatos.
                     rendimiento_anual (Fin p) rs c \<le> rendimiento_anual (Fin p) rs a)
               \<and> (\<forall>c \<in> set candidatos.
                     c < a \<longrightarrow> rendimiento_anual (Fin p) rs c < rendimiento_anual (Fin p) rs a))"
proof -
  have fin: "\<forall>c \<in> set candidatos.
               GiAnual (fila_beta (Fin p) rs c) = Fin (rendimiento_anual (Fin p) rs c)"
    using GiAnual_muestras_validas [OF assms(2)] by simp
  have dc: "\<forall>it \<in> set rs. de_componentes it"
    using assms(2) muestra_valida_de_componentes by blast
  have pos: "- 1 < rendimiento_anual (Fin p) rs 0"
    using rendimiento_cero_no_negativo [OF dc, of "Fin p"] by simp
  have tab: "tabla_optima (generarTablaAnualOptima (Fin p) rs) = map (fila_beta (Fin p) rs) candidatos"
    by (rule generarTabla_no_vacia(1) [OF assms(1)])
  have b: "map beta (map (fila_beta (Fin p) rs) candidatos) = candidatos"
    by (simp add: fila_beta_def comp_def)
  have 1: "map beta (tabla_optima (generarTablaAnualOptima (Fin p) rs)) =
           [0, 5, 10, 15, 20, 25, 30, 35, 40, 45, 50, 55, 60, 65, 70, 75, 80, 85, 90]"
    using tab b by (simp add: candidatos_def)
  have 2: "length (tabla_optima (generarTablaAnualOptima (Fin p) rs)) = 19"
    using tab by (simp add: candidatos_def)
  have 3: "\<forall>f \<in> set (tabla_optima (generarTablaAnualOptima (Fin p) rs)).
               GiAnual f = Fin (rendimiento_anual (Fin p) rs (beta f))"
  proof
    fix f assume "f \<in> set (tabla_optima (generarTablaAnualOptima (Fin p) rs))"
    then obtain c where c: "c \<in> set candidatos" "f = fila_beta (Fin p) rs c"
      using tab by auto
    have "beta f = c" using c(2) by (simp add: fila_beta_def)
    then show "GiAnual f = Fin (rendimiento_anual (Fin p) rs (beta f))"
      using fin c by simp
  qed
  show ?thesis
    using 1 2 3 seleccion_final [OF assms(1) fin pos] by blast
qed

lemma muestra_valida_mes_ejemplo: "muestra_valida mes_ejemplo"
  by (simp add: muestra_valida_def de_componentes_def mes_ejemplo_def js_gt_def
      componentes_finitos poli_difusa_def power2_eq_square power3_eq_cube)

text \<open>
  The search on the example month at the equator: the yield decreases with the tilt, and
  the angle returned is 0.
\<close>

lemma Gi_mes_ejemplo:
  assumes "0 \<le> cos x"
  shows "Gi (calcularRadiacionInclinada (Fin x) mes_ejemplo (Fin 0)) =
           Fin (3.14625 * cos x
                + (1.85375 * 0.314625 * cos x + 1.85375 * (1 - 0.314625) * (0.5 * (1 + cos x)))
                + 0.2 * 5 * (0.5 * (1 - cos x)))"
proof -
  have rb: "calcularRb (Fin 0) (Fin 0) (Fin (pi / 2)) (Fin x) = Fin (cos x)"
    by (simp add: calcularRb_Fin rb_den_def rb_num_def)
  have neg: "\<not> cos x * 3.14625 < 0" "\<not> 3.14625 * cos x < 0"
    using assms by (simp_all add: mult_less_0_iff)
  show ?thesis
    using neg
    by (simp add: calcularRadiacionInclinada_def Let_def mes_ejemplo_def js_gt_def rb
        anisotropia_Fin reflejada_def js_sub_def)
qed

lemma rendimiento_mes_ejemplo:
  assumes "c \<le> 90"
  shows "rendimiento_anual (Fin 0) [mes_ejemplo] c =
           (49468711 / 12800000 * cos (real c * pi / 180) + 14531289 / 12800000) * 31 / 1000"
proof -
  have u: "real c * pi / 180 \<le> pi / 2" using assms by simp
  have l: "- (pi / 2) \<le> real c * pi / 180"
    by (rule order_trans [of _ 0]) simp_all
  have "0 \<le> cos (real c * pi / 180)"
    using l u by (rule cos_ge_zero)
  from Gi_mes_ejemplo [OF this] show ?thesis
    by (simp add: rendimiento_anual_def contribucion_def conversion_grados)
       (simp add: mes_ejemplo_def field_simps)
qed

lemma optimo_mes_ejemplo_unico:
  assumes "a \<in> set candidatos" "a \<noteq> 0"
  shows "rendimiento_anual (Fin 0) [mes_ejemplo] a < rendimiento_anual (Fin 0) [mes_ejemplo] 0"
proof -
  have a: "0 < a" "a \<le> 90" using assms by (auto simp add: candidatos_def)
  have "0 < real a * pi / 180" "real a * pi / 180 < 2 * pi"
    using a by simp_all
  moreover have "real a * pi / 180 \<le> pi"
    using a by simp
  ultimately have "cos (real a * pi / 180) < cos 0"
    by (intro cos_monotone_0_pi) simp_all
  then have "cos (real a * pi / 180) < 1" by simp
  then show ?thesis
    using a by (simp add: rendimiento_mes_ejemplo)
qed


theorem busqueda_inclinacion_optima_witness:
  "[mes_ejemplo] \<noteq> [] \<and> muestra_valida mes_ejemplo
   \<and> map beta (tabla_optima (generarTablaAnualOptima (Fin 0) [mes_ejemplo])) =
        [0, 5, 10, 15, 20, 25, 30, 35, 40, 45, 50, 55, 60, 65, 70, 75, 80, 85, 90]
   \<and> anguloOptimo (generarTablaAnualOptima (Fin 0) [mes_ejemplo]) = Some 0"
proof -
  have v: "\<forall>it \<in> set [mes_ejemplo]. muestra_valida it"
    using muestra_valida_mes_ejemplo by simp
  from busqueda_inclinacion_optima [of "[mes_ejemplo]" 0, OF _ v]
  obtain a where tab: "map beta (tabla_optima (generarTablaAnualOptima (Fin 0) [mes_ejemplo])) =
        [0, 5, 10, 15, 20, 25, 30, 35, 40, 45, 50, 55, 60, 65, 70, 75, 80, 85, 90]"
    and a: "anguloOptimo (generarTablaAnualOptima (Fin 0) [mes_ejemplo]) = Some a"
      "a \<in> set candidatos"
      "\<forall>c \<in> set candidatos.
         rendimiento_anual (Fin 0) [mes_ejemplo] c \<le> rendimiento_anual (Fin 0) [mes_ejemplo] a"
    by auto
  have z: "0 \<in> set candidatos" by (simp add: candidatos_def)
  have "a = 0"
  proof (rule ccontr)
    assume "a \<noteq> 0"
    from optimo_mes_ejemplo_unico [OF a(2) this] a(3) z show False
      by (auto simp add: not_less [symmetric])
  qed
  then show ?thesis
    using tab a(1) muestra_valida_mes_ejemplo by simp
qed

lemma acumular_todo_NaN:
  assumes "\<forall>it \<in> set rs. isNaN (Gi (calcularRadiacionInclinada br it lat))"
  shows "foldl (acumular_mes lat br) acc rs = acc"
  using assms by (induction rs arbitrary: acc) (simp_all add: acumular_mes_def Let_def)

lemma fila_todo_NaN:
  assumes "\<forall>it \<in> set rs. isNaN (Gi (calcularRadiacionInclinada (js_div (Fin (real c)) RAD_A_DEG) it lat))"
  shows "fila_beta lat rs c = \<lparr>beta = c, GiAnual = Fin 0, GiMin = PosInf\<rparr>"
  using acumular_todo_NaN [OF assms] by (simp add: fila_beta_def acc_beta_def)

lemma optimo_todo_NaN:
  assumes ne: "rs \<noteq> []"
    and nan: "\<forall>c \<in> set candidatos. \<forall>it \<in> set rs.
                isNaN (Gi (calcularRadiacionInclinada (js_div (Fin (real c)) RAD_A_DEG) it lat))"
  shows "anguloOptimo (generarTablaAnualOptima lat rs) = Some 0"
    and "GiMinMensual (generarTablaAnualOptima lat rs) = PosInf"
    and "\<forall>f \<in> set (tabla_optima (generarTablaAnualOptima lat rs)). GiAnual f = Fin 0"
proof -
  have filas: "\<forall>c \<in> set candidatos. fila_beta lat rs c = \<lparr>beta = c, GiAnual = Fin 0, GiMin = PosInf\<rparr>"
    using nan fila_todo_NaN by blast
  then have fin: "\<forall>c \<in> set candidatos. GiAnual (fila_beta lat rs c) = Fin ((\<lambda>_. 0) c)"
    by simp
  from seleccion_final [OF ne fin] obtain a where a:
    "anguloOptimo (generarTablaAnualOptima lat rs) = Some a" "a \<in> set candidatos"
    "\<forall>c \<in> set candidatos. c < a \<longrightarrow> (0::real) < 0"
    by auto
  have z: "0 \<in> set candidatos" by (simp add: candidatos_def)
  have a0: "a = 0"
  proof (rule ccontr)
    assume "a \<noteq> 0"
    then have "0 < a" by simp
    then show False using a(3) z by blast
  qed
  show "anguloOptimo (generarTablaAnualOptima lat rs) = Some 0"
    using a(1) a0 by simp
  then show "GiMinMensual (generarTablaAnualOptima lat rs) = PosInf"
    using generarTabla_GiMin [OF ne _ z, of lat] filas z by simp
  show "\<forall>f \<in> set (tabla_optima (generarTablaAnualOptima lat rs)). GiAnual f = Fin 0"
    using generarTabla_no_vacia(1) [OF ne, of lat] filas by auto
qed

text \<open>
  C10. For a non-empty list of months built as \<open>ejecutarCalculos\<close> builds them, the
  angle returned is never \<open>null\<close>. When \<open>Gi\<close> is \<open>NaN\<close> for every month at every
  candidate angle, every annual total is 0, the angle returned is 0 and the minimum
  monthly irradiation returned is \<open>+Infinity\<close>.
\<close>

theorem angulo_nunca_nulo:
  assumes "rs \<noteq> []"
  shows "((\<forall>it \<in> set rs. de_componentes it) \<longrightarrow>
            anguloOptimo (generarTablaAnualOptima lat rs) \<noteq> None)
         \<and> ((\<forall>c \<in> set candidatos. \<forall>it \<in> set rs.
               isNaN (Gi (calcularRadiacionInclinada (js_div (Fin (real c)) RAD_A_DEG) it lat))) \<longrightarrow>
            anguloOptimo (generarTablaAnualOptima lat rs) = Some 0
            \<and> GiMinMensual (generarTablaAnualOptima lat rs) = PosInf
            \<and> (\<forall>f \<in> set (tabla_optima (generarTablaAnualOptima lat rs)). GiAnual f = Fin 0))"
  using nunca_nulo [OF assms] optimo_todo_NaN [OF assms] by blast

lemma noche_polar_NaN:
  "isNaN (Gi (calcularRadiacionInclinada b mes_noche_polar lat))"
  by (simp add: calcularRadiacionInclinada_def Let_def mes_noche_polar_def js_gt_def)

lemma noche_polar_de_componentes: "de_componentes mes_noche_polar"
  by (simp add: de_componentes_def mes_noche_polar_def calcularComponentesHorizontales_def js_gt_def)

theorem angulo_nunca_nulo_witness:
  "[mes_noche_polar] \<noteq> [] \<and> de_componentes mes_noche_polar
   \<and> isNaN (Gi (calcularRadiacionInclinada (js_div (Fin (real 45)) RAD_A_DEG) mes_noche_polar (Fin 1.5)))
   \<and> anguloOptimo (generarTablaAnualOptima (Fin 1.5) [mes_noche_polar]) = Some 0
   \<and> GiMinMensual (generarTablaAnualOptima (Fin 1.5) [mes_noche_polar]) = PosInf"
  using angulo_nunca_nulo [of "[mes_noche_polar]" "Fin 1.5"] noche_polar_NaN
    noche_polar_de_componentes
  by simp

section \<open>Properties of a whole run\<close>

lemma preparar_de_componentes: "de_componentes (preparar_mes lat dia api m)"
  by (simp add: de_componentes_def preparar_mes_def Let_def calcularComponentesHorizontales_def)

lemma con_Gi_de_componentes: "de_componentes (con_Gi b lat it) = de_componentes it"
  by (simp add: de_componentes_def con_Gi_def)

lemma ejecutar_Some:
  assumes "ejecutarCalculos ET lat lon dia api = Some c"
  shows "optimo c = generarTablaAnualOptima (js_div lat RAD_A_DEG)
            (map (con_Gi (js_div (Math_abs lat) RAD_A_DEG) (js_div lat RAD_A_DEG))
               (filter mes_valido (resultsRaw_de lat dia api)))"
    and "length (resultadosMensuales c) = length (filter mes_valido (resultsRaw_de lat dia api))"
  using assms
  by (auto simp add: ejecutarCalculos_def Let_def resultsRaw_de_def split: if_splits option.splits)

lemma ejecutar_sin_meses:
  assumes "ejecutarCalculos ET lat lon dia api = Some c"
    and "filter mes_valido (resultsRaw_de lat dia api) = []"
  shows "anguloOptimo (optimo c) = None \<and> GiMinMensual (optimo c) = Fin 0
         \<and> tabla_optima (optimo c) = [] \<and> resultadosMensuales c = []"
  using ejecutar_Some [OF assms(1)] assms(2)
  by (simp add: generarTablaAnualOptima_def)

lemma ejecutar_con_meses:
  assumes "ejecutarCalculos ET lat lon dia api = Some c"
    and "filter mes_valido (resultsRaw_de lat dia api) \<noteq> []"
  shows "anguloOptimo (optimo c) \<noteq> None"
proof -
  let ?rs = "map (con_Gi (js_div (Math_abs lat) RAD_A_DEG) (js_div lat RAD_A_DEG))
               (filter mes_valido (resultsRaw_de lat dia api))"
  have ne: "?rs \<noteq> []" using assms(2) by simp
  have dc: "\<forall>it \<in> set ?rs. de_componentes it"
    by (auto simp add: con_Gi_de_componentes resultsRaw_de_def preparar_de_componentes)
  show ?thesis
    using nunca_nulo [OF ne dc] ejecutar_Some(1) [OF assms(1)] by simp
qed

text \<open>
  The guard that \<open>main.js\<close> has: a run returns the no-optimum result exactly when no
  month at all is valid.
\<close>

lemma sin_optimo_sin_meses:
  assumes "ejecutarCalculos ET lat lon dia api = Some c"
  shows "(filter mes_valido (resultsRaw_de lat dia api) = [] \<longrightarrow>
            anguloOptimo (optimo c) = None \<and> GiMinMensual (optimo c) = Fin 0
            \<and> tabla_optima (optimo c) = [] \<and> resultadosMensuales c = [])
         \<and> (filter mes_valido (resultsRaw_de lat dia api) \<noteq> [] \<longrightarrow>
            anguloOptimo (optimo c) \<noteq> None
            \<and> length (resultadosMensuales c) = length (filter mes_valido (resultsRaw_de lat dia api)))"
  using ejecutar_sin_meses [OF assms] ejecutar_con_meses [OF assms] ejecutar_Some(2) [OF assms]
  by blast

lemma ocho_meses:
  "length (filter mes_valido (resultsRaw_de (Fin 10) 15 api_8_meses)) = 8"
  by (simp add: resultsRaw_de_def mesesData_def preparar_mes_def Let_def mes_valido_def
      api_8_meses_def js_gt_def)

lemma corrida_8_Some:
  "ejecutarCalculos (Fin 1000) (Fin 10) (Fin (- 66)) 15 api_8_meses \<noteq> None"
  by (simp add: ejecutarCalculos_def Let_def js_le_def js_eq_def)

text \<open>
  The run at latitude 10, longitude -66 and day 15 in which the source answers for eight
  months only: \<open>ejecutarCalculos\<close> of \<open>main.js\<close>, whose guard is the empty list,
  searches, returns an angle that is not \<open>null\<close> and keeps the eight monthly results.
\<close>

lemma corrida_ocho_meses:
  "length (filter mes_valido (resultsRaw_de (Fin 10) 15 api_8_meses)) = 8
   \<and> ejecutarCalculos (Fin 1000) (Fin 10) (Fin (- 66)) 15 api_8_meses \<noteq> None
   \<and> anguloOptimo (optimo (the (ejecutarCalculos (Fin 1000) (Fin 10) (Fin (- 66)) 15 api_8_meses)))
       \<noteq> None
   \<and> length (resultadosMensuales (the (ejecutarCalculos (Fin 1000) (Fin 10) (Fin (- 66)) 15 api_8_meses)))
       = 8"
proof -
  obtain c where c: "ejecutarCalculos (Fin 1000) (Fin 10) (Fin (- 66)) 15 api_8_meses = Some c"
    using corrida_8_Some by blast
  have ne: "filter mes_valido (resultsRaw_de (Fin 10) 15 api_8_meses) \<noteq> []"
    using ocho_meses by auto
  show ?thesis
    using c ocho_meses ejecutar_con_meses [OF c ne] ejecutar_Some(2) [OF c] by simp
qed

section \<open>Latitudes outside the polar circles\<close>

text \<open>
  Two polynomial identities: on the unit circle they bound the constant term and the first
  two harmonics of the declination from above and from below.
\<close>

lemma certificado_sup:
  fixes c s :: real
  shows "(80001 / 200000) + (49989 / 125000) * c + (- (70257 / 1000000)) * s + (3379 / 500000) * c\<^sup>2 + (- (3379 / 500000)) * s\<^sup>2 + 2 * (- (907 / 1000000)) * (s * c) =
         (101579 / 500000) * (c + (- (907 / 203158)) * s + (99978 / 101579))\<^sup>2 + (38526466787 / 203158000000) * (s + (- (6955275711 / 38526466787)))\<^sup>2 + (47762214796363 / 77052933574000000) - (491 / 2500) * (c\<^sup>2 + s\<^sup>2 - 1)"
  by (simp add: power2_eq_square field_simps)

lemma certificado_inf:
  fixes c s :: real
  shows "(413841 / 1000000) + (- (49989 / 125000)) * c + (70257 / 1000000) * s + (- (3379 / 500000)) * c\<^sup>2 + (3379 / 500000) * s\<^sup>2 + 2 * (907 / 1000000) * (s * c) =
         (101471 / 500000) * (c + (907 / 202942) * s + (- (99978 / 101471)))\<^sup>2 + (43927596787 / 202942000000) * (s + (7310408139 / 43927596787))\<^sup>2 + (99476394259191 / 87855193574000000) - (2097 / 10000) * (c\<^sup>2 + s\<^sup>2 - 1)"
  by (simp add: power2_eq_square field_simps)

lemma calcularDelta_Fin:
  "calcularDelta (Fin n) = Fin (delta_gamma (2 * pi * ((n - 1) / 365)))"
  by (simp add: calcularDelta_def Let_def PI_def js_sub_def delta_gamma_def)

lemma cuadrados_lagrange:
  fixes a b u v :: real
  shows "(a * u + b * v)\<^sup>2 + (a * v - b * u)\<^sup>2 = (a\<^sup>2 + b\<^sup>2) * (v\<^sup>2 + u\<^sup>2)"
  by (simp add: power2_eq_square algebra_simps)

lemma armonico_acotado:
  fixes a b r x :: real
  assumes "a\<^sup>2 + b\<^sup>2 \<le> r\<^sup>2" and "0 \<le> r"
  shows "\<bar>a * cos x + b * sin x\<bar> \<le> r"
proof -
  have "(a * cos x + b * sin x)\<^sup>2 + (a * sin x - b * cos x)\<^sup>2 = a\<^sup>2 + b\<^sup>2"
    using cuadrados_lagrange [of a "cos x" b "sin x"] by simp
  moreover have "0 \<le> (a * sin x - b * cos x)\<^sup>2" by simp
  ultimately have "(a * cos x + b * sin x)\<^sup>2 \<le> r\<^sup>2"
    using assms(1) by linarith
  then show ?thesis
    using assms(2) by (simp add: power2_le_iff_abs_le)
qed

lemma delta_gamma_acotada: "\<bar>delta_gamma g\<bar> < 0.41"
proof -
  define c where "c = cos g"
  define s where "s = sin g"
  have cs: "c\<^sup>2 + s\<^sup>2 - 1 = 0"
    by (simp add: c_def s_def)
  have c2: "cos (2 * g) = c\<^sup>2 - s\<^sup>2"
    by (simp add: cos_double c_def s_def)
  have s2: "sin (2 * g) = 2 * (s * c)"
    by (simp add: sin_double c_def s_def)
  have h3: "\<bar>(- (2697 / 1000000)) * cos (3 * g) + (148 / 100000) * sin (3 * g)\<bar> \<le> 3077 / 1000000"
    by (rule armonico_acotado) (simp_all add: power2_eq_square)
  have sq1: "0 \<le> (101579 / 500000) * (c + (- (907 / 203158)) * s + (99978 / 101579))\<^sup>2"
    and sq2: "0 \<le> (38526466787 / 203158000000) * (s + (- (6955275711 / 38526466787)))\<^sup>2"
    and sq3: "0 \<le> (101471 / 500000) * (c + (907 / 202942) * s + (- (99978 / 101471)))\<^sup>2"
    and sq4: "0 \<le> (43927596787 / 202942000000) * (s + (7310408139 / 43927596787))\<^sup>2"
    by (intro mult_nonneg_nonneg zero_le_power2; simp)+
  have sup: "0 < (80001 / 200000) + (49989 / 125000) * c + (- (70257 / 1000000)) * s
                 + (3379 / 500000) * c\<^sup>2 + (- (3379 / 500000)) * s\<^sup>2
                 + 2 * (- (907 / 1000000)) * (s * c)"
  proof -
    have "0 < (101579 / 500000) * (c + (- (907 / 203158)) * s + (99978 / 101579))\<^sup>2
              + (38526466787 / 203158000000) * (s + (- (6955275711 / 38526466787)))\<^sup>2
              + (47762214796363 / 77052933574000000)"
      using sq1 sq2 by linarith
    also have "\<dots> = (101579 / 500000) * (c + (- (907 / 203158)) * s + (99978 / 101579))\<^sup>2
              + (38526466787 / 203158000000) * (s + (- (6955275711 / 38526466787)))\<^sup>2
              + (47762214796363 / 77052933574000000) - (491 / 2500) * (c\<^sup>2 + s\<^sup>2 - 1)"
      by (simp only: cs mult_zero_right diff_zero)
    also have "\<dots> = (80001 / 200000) + (49989 / 125000) * c + (- (70257 / 1000000)) * s
                 + (3379 / 500000) * c\<^sup>2 + (- (3379 / 500000)) * s\<^sup>2
                 + 2 * (- (907 / 1000000)) * (s * c)"
      by (rule certificado_sup [symmetric])
    finally show ?thesis .
  qed
  have inf: "0 < (413841 / 1000000) + (- (49989 / 125000)) * c + (70257 / 1000000) * s
                 + (- (3379 / 500000)) * c\<^sup>2 + (3379 / 500000) * s\<^sup>2
                 + 2 * (907 / 1000000) * (s * c)"
  proof -
    have "0 < (101471 / 500000) * (c + (907 / 202942) * s + (- (99978 / 101471)))\<^sup>2
              + (43927596787 / 202942000000) * (s + (7310408139 / 43927596787))\<^sup>2
              + (99476394259191 / 87855193574000000)"
      using sq3 sq4 by linarith
    also have "\<dots> = (101471 / 500000) * (c + (907 / 202942) * s + (- (99978 / 101471)))\<^sup>2
              + (43927596787 / 202942000000) * (s + (7310408139 / 43927596787))\<^sup>2
              + (99476394259191 / 87855193574000000) - (2097 / 10000) * (c\<^sup>2 + s\<^sup>2 - 1)"
      by (simp only: cs mult_zero_right diff_zero)
    also have "\<dots> = (413841 / 1000000) + (- (49989 / 125000)) * c + (70257 / 1000000) * s
                 + (- (3379 / 500000)) * c\<^sup>2 + (3379 / 500000) * s\<^sup>2
                 + 2 * (907 / 1000000) * (s * c)"
      by (rule certificado_inf [symmetric])
    finally show ?thesis .
  qed
  have d: "delta_gamma g = 6918 / 1000000 - (399912 / 1000000) * c + (70257 / 1000000) * s
             - (6758 / 1000000) * (c\<^sup>2 - s\<^sup>2) + (907 / 1000000) * (2 * (s * c))
             + ((- (2697 / 1000000)) * cos (3 * g) + (148 / 100000) * sin (3 * g))"
    by (simp add: delta_gamma_def c2 s2 c_def [symmetric] s_def [symmetric])
  have h3a: "(- (2697 / 1000000)) * cos (3 * g) + (148 / 100000) * sin (3 * g) \<le> 3077 / 1000000"
    and h3b: "- (3077 / 1000000) \<le> (- (2697 / 1000000)) * cos (3 * g) + (148 / 100000) * sin (3 * g)"
    using h3 by (simp_all only: abs_le_iff) linarith+
  have "delta_gamma g < 41 / 100"
    unfolding d using sup h3a by argo
  moreover have "- (41 / 100) < delta_gamma g"
    unfolding d using inf h3b by argo
  ultimately show ?thesis
    by (simp add: abs_less_iff)
qed

text \<open>A lower bound of \<open>pi\<close> from Machin's formula.\<close>

lemma arctan_cota_inferior:
  assumes "0 \<le> x"
  shows "x - x ^ 3 / 3 \<le> arctan x"
proof -
  let ?f = "\<lambda>t. arctan t - t + t ^ 3 / 3"
  have "?f 0 \<le> ?f x"
  proof (rule DERIV_nonneg_imp_nondecreasing [OF assms])
    fix t :: real
    have d: "DERIV ?f t :> inverse (1 + t\<^sup>2) - 1 + t\<^sup>2"
      by (auto intro!: derivative_eq_intros)
    have "inverse (1 + t\<^sup>2) - 1 + t\<^sup>2 = t ^ 4 / (1 + t\<^sup>2)"
    proof -
      have nz: "1 + t\<^sup>2 \<noteq> 0"
        by (metis add_nonneg_eq_0_iff zero_le_power2 zero_le_one zero_neq_one)
      show ?thesis
        using nz by (simp add: field_simps power2_eq_square power4_eq_xxxx)
    qed
    moreover have "0 \<le> t ^ 4 / (1 + t\<^sup>2)"
      by (intro divide_nonneg_nonneg) (simp_all add: add_nonneg_nonneg)
    ultimately show "\<exists>y. DERIV ?f t :> y \<and> 0 \<le> y"
      using d by auto
  qed
  then show ?thesis by simp
qed

lemma arctan_cota_superior:
  assumes "0 \<le> x"
  shows "arctan x \<le> x"
proof -
  let ?f = "\<lambda>t. t - arctan t"
  have "?f 0 \<le> ?f x"
  proof (rule DERIV_nonneg_imp_nondecreasing [OF assms])
    fix t :: real
    have d: "DERIV ?f t :> 1 - inverse (1 + t\<^sup>2)"
      by (auto intro!: derivative_eq_intros)
    have "1 \<le> 1 + t\<^sup>2" by simp
    then have "inverse (1 + t\<^sup>2) \<le> 1"
      by (simp add: inverse_le_1_iff)
    then show "\<exists>y. DERIV ?f t :> y \<and> 0 \<le> y"
      using d by auto
  qed
  then show ?thesis by simp
qed

lemma pi_cota: "3.1405 < pi"
proof -
  have a: "(1 / 5) - (1 / 5) ^ 3 / 3 \<le> arctan (1 / 5)"
    by (rule arctan_cota_inferior) simp
  have b: "arctan (1 / 239) \<le> 1 / 239"
    by (rule arctan_cota_superior) simp
  have a': "74 / 375 \<le> arctan (1 / 5)"
    using a by (simp add: power3_eq_cube)
  have "4 * (74 / 375) - 1 / 239 \<le> pi / 4"
    using a' b machin by argo
  then show ?thesis by simp
qed

lemma fuera_de_los_polos:
  fixes p d :: real
  assumes "\<bar>p\<bar> + \<bar>d\<bar> < pi / 2"
  shows "- 1 < - tan p * tan d" and "- tan p * tan d < 1"
    and "0 < cos p * cos d"
    and "sin d * sin p = - (- tan p * tan d) * (cos p * cos d)"
proof -
  have cp: "0 < cos p" and cd: "0 < cos d"
    using assms by (auto intro!: cos_gt_zero_pi)
  have s: "0 < cos (p + d)" and m: "0 < cos (p - d)"
    using assms by (auto intro!: cos_gt_zero_pi)
  show pos: "0 < cos p * cos d" using cp cd by simp
  have t: "tan p * tan d = (sin p * sin d) / (cos p * cos d)"
    by (simp add: tan_def)
  have "sin p * sin d < cos p * cos d"
    using s by (simp add: cos_add)
  then have "tan p * tan d < 1"
    unfolding t using pos by (simp add: divide_less_eq)
  then show "- 1 < - tan p * tan d" by simp
  have "- (cos p * cos d) < sin p * sin d"
    using m by (simp add: cos_diff)
  then have "- 1 < tan p * tan d"
    unfolding t using pos by (simp add: less_divide_eq)
  then show "- tan p * tan d < 1" by simp
  show "sin d * sin p = - (- tan p * tan d) * (cos p * cos d)"
    using cp cd by (simp add: tan_def)
qed

lemma seno_menos_arco:
  fixes w :: real
  assumes "0 < w" and "w < pi"
  shows "0 < sin w - w * cos w"
proof -
  let ?f = "\<lambda>x. sin x - x * cos x"
  have "?f 0 < ?f w"
  proof (rule DERIV_pos_imp_increasing_open [OF assms(1)])
    fix x :: real
    assume x: "0 < x" "x < w"
    have d: "DERIV ?f x :> x * sin x"
      by (auto intro!: derivative_eq_intros)
    have "0 < sin x"
      using x assms(2) by (intro sin_gt_zero) simp_all
    then have "0 < x * sin x" using x(1) by simp
    then show "\<exists>y. DERIV ?f x :> y \<and> 0 < y"
      using d by blast
  next
    show "continuous_on {0..w} ?f"
      by (intro continuous_intros)
  qed
  then show ?thesis by simp
qed

lemma calcularG0d_templada:
  assumes "- 1 \<le> - tan p * tan d" and "- tan p * tan d \<le> 1"
  shows "calcularG0d (Fin p) (Fin d) (Fin n) =
           \<lparr>omega_s_r = Fin (arccos (- tan p * tan d)),
            E0_r = Fin (1 + 0.033 * cos (2 * pi * n / 365)),
            G0d_kWh_r = Fin (24 / pi * 1367 * (1 + 0.033 * cos (2 * pi * n / 365))
                             * (arccos (- tan p * tan d) * sin d * sin p
                                + cos d * cos p * sin (arccos (- tan p * tan d))) / 1000)\<rparr>"
  using assms
  by (simp add: calcularG0d_def Let_def js_ge_def js_le_def js_eq_def PI_def FACTOR_G0D_def
      ICS_def)

lemma irradiacion_positiva:
  fixes p d n :: real
  assumes "\<bar>p\<bar> + \<bar>d\<bar> < pi / 2"
  shows "0 < arccos (- tan p * tan d)" and "arccos (- tan p * tan d) < pi"
    and "0 < 24 / pi * 1367 * (1 + 0.033 * cos (2 * pi * n / 365))
               * (arccos (- tan p * tan d) * sin d * sin p
                  + cos d * cos p * sin (arccos (- tan p * tan d))) / 1000"
proof -
  let ?a = "- tan p * tan d"
  let ?w = "arccos ?a"
  note f = fuera_de_los_polos [OF assms]
  have w: "0 < ?w \<and> ?w < pi"
    using f(1,2) by (rule arccos_lt_bounded)
  show "0 < ?w" and "?w < pi" using w by simp_all
  have cw: "cos ?w = ?a"
    using f(1,2) by (simp add: cos_arccos)
  have "?w * sin d * sin p + cos d * cos p * sin ?w =
          ?w * (sin d * sin p) + (cos p * cos d) * sin ?w"
    by simp
  also have "\<dots> = (cos p * cos d) * (sin ?w - ?w * cos ?w)"
    unfolding f(4) cw by (simp add: algebra_simps)
  finally have h: "?w * sin d * sin p + cos d * cos p * sin ?w =
          (cos p * cos d) * (sin ?w - ?w * cos ?w)" .
  have hp: "0 < ?w * sin d * sin p + cos d * cos p * sin ?w"
    unfolding h using f(3) seno_menos_arco [of ?w] w by simp
  have "- 1 \<le> cos (2 * pi * n / 365)" by simp
  then have "0 < 1 + (33 / 1000) * cos (2 * pi * n / 365)" by argo
  then have e: "0 < 1 + 0.033 * cos (2 * pi * n / 365)" by simp
  show "0 < 24 / pi * 1367 * (1 + 0.033 * cos (2 * pi * n / 365))
               * (arccos (- tan p * tan d) * sin d * sin p
                  + cos d * cos p * sin (arccos (- tan p * tan d))) / 1000"
    by (intro divide_pos_pos mult_pos_pos e hp) simp_all
qed

lemma latitud_no_polar:
  fixes lat g :: real
  assumes "- 66.5 \<le> lat" and "lat \<le> 66.5"
  shows "\<bar>lat / (180 / pi)\<bar> + \<bar>delta_gamma g\<bar> < pi / 2"
proof -
  have "\<bar>lat\<bar> \<le> 66.5" using assms by (simp add: abs_le_iff)
  then have "\<bar>lat / (180 / pi)\<bar> \<le> 66.5 * pi / 180"
    by (simp add: abs_mult field_simps)
  moreover have "\<bar>delta_gamma g\<bar> < 23.5 * pi / 180"
    using delta_gamma_acotada [of g] pi_cota by simp
  ultimately show ?thesis by simp
qed

text \<open>
  C6. For every latitude between -66.5 and 66.5 degrees, converted to radians as
  \<open>ejecutarCalculos\<close> does, and every day number (in particular every day from 1 to
  365), the declination of \<open>calcularDelta\<close> and the result of \<open>calcularG0d\<close> are
  such that the sunset hour angle lies strictly between 0 and \<open>pi\<close> and the
  extraterrestrial daily irradiation is strictly positive.
\<close>

theorem latitudes_no_polares:
  assumes "- 66.5 \<le> lat" and "lat \<le> 66.5"
  shows "\<exists>w g. omega_s_r (calcularG0d (js_div (Fin lat) RAD_A_DEG) (calcularDelta (Fin n)) (Fin n)) = Fin w
               \<and> 0 < w \<and> w < pi
               \<and> G0d_kWh_r (calcularG0d (js_div (Fin lat) RAD_A_DEG) (calcularDelta (Fin n)) (Fin n)) = Fin g
               \<and> 0 < g"
proof -
  let ?p = "lat / (180 / pi)"
  let ?d = "delta_gamma (2 * pi * ((n - 1) / 365))"
  have np: "\<bar>?p\<bar> + \<bar>?d\<bar> < pi / 2"
    by (rule latitud_no_polar [OF assms])
  note f = fuera_de_los_polos [OF np]
  have conv: "js_div (Fin lat) RAD_A_DEG = Fin ?p"
    by (simp add: RAD_A_DEG_def PI_def)
  have c: "calcularG0d (js_div (Fin lat) RAD_A_DEG) (calcularDelta (Fin n)) (Fin n) =
             calcularG0d (Fin ?p) (Fin ?d) (Fin n)"
    by (simp only: conv calcularDelta_Fin)
  show ?thesis
    unfolding c
    using irradiacion_positiva(1,2) [OF np] irradiacion_positiva(3) [OF np, of n] f(1,2)
    by (simp add: calcularG0d_templada del: mult_minus_left)
qed

theorem latitudes_no_polares_witness:
  "(- 66.5 :: real) \<le> 45 \<and> (45 :: real) \<le> 66.5
   \<and> (\<exists>w g. omega_s_r (calcularG0d (js_div (Fin 45) RAD_A_DEG) (calcularDelta (Fin 172)) (Fin 172)) = Fin w
          \<and> 0 < w \<and> w < pi
          \<and> G0d_kWh_r (calcularG0d (js_div (Fin 45) RAD_A_DEG) (calcularDelta (Fin 172)) (Fin 172)) = Fin g
          \<and> 0 < g)"
  using latitudes_no_polares [of 45 172] by simp

section \<open>The guard of calcularRadiacionOptima\<close>

lemma ocho_meses_optima:
  "length (datosBaseValidos_de (Fin 10) 15 fuente_8_meses) = 8"
  by (simp add: datosBaseValidos_de_def mesesData_def preparar_mes_optima_def Let_def
      List.map_filter_simps fuente_8_meses_def js_gt_def)

text \<open>
  C2. Whenever fewer than 10 months have a valid horizontal sample, that is, whenever the
  list \<open>datosBaseValidos\<close> has fewer than 10 entries, \<open>calcularRadiacionOptima\<close>
  does not search: it returns the no-optimum result, with a \<open>null\<close> angle, an annual
  yield of 0 and an empty list of monthly results.
\<close>

theorem guarda_diez_meses:
  assumes "length (datosBaseValidos_de latitudGrados diaDelMes GdFuente) < 10"
  shows "calcularRadiacionOptima latitudGrados longitudGrados diaDelMes GdFuente =
           \<lparr>anguloOptimo = None, GiMinMensual = Fin 0, GiAnualMWh = Fin 0,
            resultadosMensualesFinal = []\<rparr>"
  using assms by (simp add: calcularRadiacionOptima_def Let_def)

theorem guarda_diez_meses_witness:
  "length (datosBaseValidos_de (Fin 10) 15 fuente_8_meses) = 8
   \<and> length (datosBaseValidos_de (Fin 10) 15 fuente_8_meses) < 10
   \<and> calcularRadiacionOptima (Fin 10) (Fin (- 66)) 15 fuente_8_meses =
       \<lparr>anguloOptimo = None, GiMinMensual = Fin 0, GiAnualMWh = Fin 0,
        resultadosMensualesFinal = []\<rparr>"
  using guarda_diez_meses [of "Fin 10" 15 fuente_8_meses "Fin (- 66)"]
  by (simp add: ocho_meses_optima)

end
